theory Spec2Isabelle
  imports Complex_Main
begin

section \<open>Go values: strings, decoded documents, library functions\<close>

text \<open>
  A Go string is modelled by the sequence of Unicode code points (runes) that
  ranging over it yields; the empty Go string is the empty list.  Literals of
  the source are ASCII and written \<open>str ''...''\<close>.
\<close>

type_synonym rune = nat
type_synonym gostring = "rune list"

definition str :: "string \<Rightarrow> gostring" where
  "str cs = map of_char cs"

text \<open>\<open>len(s)\<close>: the number of bytes of the UTF-8 encoding.\<close>

definition rune_width :: "rune \<Rightarrow> nat" where
  "rune_width r = (if r < 0x80 then 1 else if r < 0x800 then 2 else if r < 0x10000 then 3 else 4)"

definition len :: "gostring \<Rightarrow> nat" where
  "len s = sum_list (map rune_width s)"

text \<open>\<open>unicode.IsSpace\<close>: the Latin-1 white space and the White_Space table.\<close>

definition unicode_IsSpace :: "rune \<Rightarrow> bool" where
  "unicode_IsSpace r \<longleftrightarrow>
     (9 \<le> r \<and> r \<le> 13) \<or> r = 0x20 \<or> r = 0x85 \<or> r = 0xA0 \<or> r = 0x1680 \<or>
     (0x2000 \<le> r \<and> r \<le> 0x200A) \<or> r = 0x2028 \<or> r = 0x2029 \<or> r = 0x202F \<or>
     r = 0x205F \<or> r = 0x3000"

text \<open>\<open>strings.TrimSpace\<close>: leading and trailing white space removed.\<close>

definition strings_TrimSpace :: "gostring \<Rightarrow> gostring" where
  "strings_TrimSpace s = rev (dropWhile unicode_IsSpace (rev (dropWhile unicode_IsSpace s)))"

definition strings_HasPrefix :: "gostring \<Rightarrow> gostring \<Rightarrow> bool" where
  "strings_HasPrefix s prefix \<longleftrightarrow> take (length prefix) s = prefix"

text \<open>
  A slice is \<open>nil\<close> or holds a sequence of elements, and a map is
  \<open>nil\<close> or holds entries: \<open>None\<close> is \<open>nil\<close>, so that the empty
  slice \<open>[]string{}\<close> is \<open>Some []\<close> and differs from \<open>nil\<close>, as
  it does for \<open>reflect.DeepEqual\<close>.  \<open>elems\<close> gives what \<open>len\<close> and
  \<open>range\<close> see of a slice, \<open>entries\<close> what \<open>len\<close>, \<open>range\<close> and
  a lookup see of a map: nothing in \<open>nil\<close>.
\<close>

definition elems :: "'a list option \<Rightarrow> 'a list" where
  "elems s = (case s of None \<Rightarrow> [] | Some xs \<Rightarrow> xs)"

definition entries :: "('k \<rightharpoonup> 'v) option \<Rightarrow> ('k \<rightharpoonup> 'v)" where
  "entries m = (case m of None \<Rightarrow> Map.empty | Some f \<Rightarrow> f)"

text \<open>
  A \<open>float64\<close>: a finite number (every finite \<open>float64\<close> is a
  rational), an infinity or a NaN.
\<close>

datatype float64 = Finite rat | PosInf | NegInf | NaN

text \<open>
  What \<open>json.Unmarshal\<close> and \<open>yaml.Unmarshal\<close> store into an
  \<open>interface{}\<close>.  A decoded map with string keys is an association list
  with distinct keys; \<open>VSlice\<close> is \<open>[]interface{}\<close>, \<open>VStrings\<close> is
  \<open>[]string\<close>, and \<open>VOther\<close> stands for every other dynamic type.
\<close>

datatype GoValue =
    VNil
  | VBool bool
  | VInt int
  | VFloat float64
  | VString gostring
  | VSlice "GoValue list"
  | VStrings "gostring list option"
  | VMap "(gostring \<times> GoValue) list"
  | VOther

text \<open>The arguments that the program passes to \<open>fmt.Sprintf\<close> and \<open>fmt.Errorf\<close>.\<close>

datatype fmtarg =
    AInt int
  | AString gostring
  | AStrings "gostring list"
  | AMap "gostring \<rightharpoonup> gostring"
  | AValue GoValue

section \<open>Errors\<close>

text \<open>
  The predefined error values, the two structured error types, the errors made
  with \<open>fmt.Errorf\<close> (the format, its arguments other than the wrapped
  error, and the error wrapped by \<open>%w\<close>), the errors of the decoders and
  a run-time panic.
\<close>

datatype error =
    ErrInvalidCommentFormat
  | ErrUnsupportedFormat
  | ErrCommentTooLong
  | ErrLogicalNameTooLong
  | ErrDescriptionTooLong
  | ErrInvalidCharacters
  | ErrJSONTooDeep
  | ErrYAMLParseError
  | CommentParseError gostring gostring gostring "error option"
  | CommentValidationError gostring gostring gostring "error option"
  | Errorf gostring "fmtarg list" "error option"
  | LibraryError gostring
  | Panic gostring

definition NewCommentParseError :: "gostring \<Rightarrow> gostring \<Rightarrow> gostring \<Rightarrow> error option \<Rightarrow> error" where
  "NewCommentParseError parserName comment reason cause = CommentParseError parserName comment reason cause"

definition NewCommentValidationError :: "gostring \<Rightarrow> gostring \<Rightarrow> gostring \<Rightarrow> error option \<Rightarrow> error" where
  "NewCommentValidationError field val reason cause = CommentValidationError field val reason cause"

section \<open>CommentData\<close>

text \<open>
  \<open>Tags\<close> is a slice and \<open>Metadata\<close> a map; each may be \<open>nil\<close>.
\<close>

record CommentData =
  LogicalName :: gostring
  Description :: gostring
  Tags :: "gostring list option"
  Metadata :: "(gostring \<rightharpoonup> gostring) option"
  Priority :: int
  Deprecated :: bool
  Source :: gostring

text \<open>The composite literal \<open>&CommentData{}\<close>: every field has its zero value.\<close>

definition CommentData_zero :: CommentData where
  "CommentData_zero = \<lparr>LogicalName = [], Description = [], Tags = None, Metadata = None,
     Priority = 0, Deprecated = False, Source = []\<rparr>"

definition IsEmpty :: "CommentData option \<Rightarrow> bool" where
  "IsEmpty cd = (case cd of None \<Rightarrow> True
     | Some d \<Rightarrow> LogicalName d = [] \<and> Description d = [] \<and> length (elems (Tags d)) = 0 \<and>
                entries (Metadata d) = Map.empty)"

text \<open>
  \<open>Clone\<close> copies the tags and the metadata into a new slice and a new map
  only when there are any; otherwise the field of the clone stays \<open>nil\<close>.
\<close>

definition Clone :: "CommentData \<Rightarrow> CommentData" where
  "Clone cd = \<lparr>LogicalName = LogicalName cd, Description = Description cd,
     Tags = (if length (elems (Tags cd)) > 0 then Some (elems (Tags cd)) else None),
     Metadata = (if entries (Metadata cd) \<noteq> Map.empty then Some (entries (Metadata cd)) else None),
     Priority = Priority cd, Deprecated = Deprecated cd, Source = Source cd\<rparr>"

text \<open>
  The tag loop of \<open>Merge\<close>: \<open>tagSet\<close> holds the tags seen so far; a
  tag of \<open>other\<close> that is not in it is appended (\<open>append\<close> to \<open>nil\<close>
  makes a slice) and added to it.
\<close>

fun merge_tags ::
    "gostring set \<Rightarrow> gostring list option \<Rightarrow> gostring list \<Rightarrow> gostring list option" where
  "merge_tags tagSet merged [] = merged"
| "merge_tags tagSet merged (tag # rest) =
     (if tag \<notin> tagSet then merge_tags (insert tag tagSet) (Some (elems merged @ [tag])) rest
      else merge_tags tagSet merged rest)"

definition Merge :: "CommentData option \<Rightarrow> CommentData option \<Rightarrow> CommentData option" where
  "Merge cd other =
     (case cd of
        None \<Rightarrow> (case other of None \<Rightarrow> None | Some ot \<Rightarrow> Some (Clone ot))
      | Some c \<Rightarrow>
         (case other of
            None \<Rightarrow> Some (Clone c)
          | Some ot \<Rightarrow>
             (let merged = Clone c;
                  merged = (if LogicalName merged = [] \<and> LogicalName ot \<noteq> []
                            then merged\<lparr>LogicalName := LogicalName ot\<rparr> else merged);
                  merged = (if Description merged = [] \<and> Description ot \<noteq> []
                            then merged\<lparr>Description := Description ot\<rparr> else merged);
                  merged = (if length (elems (Tags ot)) > 0
                            then merged\<lparr>Tags := merge_tags (set (elems (Tags merged))) (Tags merged)
                                                    (elems (Tags ot))\<rparr>
                            else merged);
                  merged = (if entries (Metadata ot) \<noteq> Map.empty
                            then merged\<lparr>Metadata :=
                                   Some (entries (Metadata ot) ++ entries (Metadata merged))\<rparr>
                            else merged)
              in Some merged)))"

section \<open>Library functions that are taken as given\<close>

text \<open>
  The decoders, \<open>fmt.Sprintf\<close>, the regular-expression matcher, the
  Unicode case mappings and the Unicode tables behind \<open>unicode.IsPrint\<close>
  (for runes above Latin-1) are not part of the program.  They are parameters of
  the model: every theorem below holds for whatever these functions compute.
\<close>

record GoLib =
  json_Unmarshal :: "gostring \<Rightarrow> error + GoValue"
  yaml_Unmarshal :: "gostring \<Rightarrow> error + GoValue"
  fmt_Sprintf :: "gostring \<Rightarrow> fmtarg list \<Rightarrow> gostring"
  regexp_MatchString :: "gostring \<Rightarrow> gostring \<Rightarrow> bool"
  strings_ToLower :: "gostring \<Rightarrow> gostring"
  strings_ToUpper :: "gostring \<Rightarrow> gostring"
  unicode_In_PrintRanges :: "rune \<Rightarrow> bool"
  int_of_unrepresentable :: "float64 \<Rightarrow> int"

text \<open>
  The conversion \<open>int(v)\<close> of a \<open>float64\<close>: the fraction is discarded
  (rounding towards zero).  When the result is not in the 64 bits of \<open>int\<close>,
  or \<open>v\<close> is an infinity or a NaN, the conversion succeeds and its value
  depends on the implementation: \<open>int_of_unrepresentable\<close>.
\<close>

definition truncate_toward_zero :: "rat \<Rightarrow> int" where
  "truncate_toward_zero q = (if 0 \<le> q then \<lfloor>q\<rfloor> else \<lceil>q\<rceil>)"

definition int_of_float64 :: "GoLib \<Rightarrow> float64 \<Rightarrow> int" where
  "int_of_float64 L v =
     (case v of
        Finite q \<Rightarrow>
          if - (2 ^ 63) \<le> truncate_toward_zero q \<and> truncate_toward_zero q < 2 ^ 63 then truncate_toward_zero q
          else int_of_unrepresentable L v
      | _ \<Rightarrow> int_of_unrepresentable L v)"

text \<open>\<open>strings.Split(s, sep)\<close> and \<open>strings.Contains(s, sep)\<close> for a separator of one rune.\<close>

fun split_rune :: "rune \<Rightarrow> gostring \<Rightarrow> gostring \<Rightarrow> gostring list" where
  "split_rune sep cur [] = [cur]"
| "split_rune sep cur (c # cs) =
     (if c = sep then cur # split_rune sep [] cs else split_rune sep (cur @ [c]) cs)"

definition strings_Split1 :: "gostring \<Rightarrow> rune \<Rightarrow> gostring list" where
  "strings_Split1 s sep = split_rune sep [] s"

definition strings_Contains1 :: "gostring \<Rightarrow> rune \<Rightarrow> bool" where
  "strings_Contains1 s sep \<longleftrightarrow> sep \<in> set s"

text \<open>
  \<open>fmt.Sscanf(s, "%d", &result)\<close>: an optional sign and then the longest run
  of decimal digits, at least one, are read and converted; what follows the
  digits is not read.  The value must fit the 64 bits of \<open>int\<close>.
\<close>

definition is_digit :: "rune \<Rightarrow> bool" where
  "is_digit c \<longleftrightarrow> 0x30 \<le> c \<and> c \<le> 0x39"

definition decimal_value :: "gostring \<Rightarrow> int" where
  "decimal_value ds = foldl (\<lambda>acc c. 10 * acc + int (c - 0x30)) 0 ds"

definition fmt_Sscanf_d :: "gostring \<Rightarrow> error + int" where
  "fmt_Sscanf_d s =
     (case s of
        [] \<Rightarrow> Inl (LibraryError (str ''unexpected EOF''))
      | c # cs \<Rightarrow>
         (let negative = (c = 0x2D);
              body = (if c = 0x2B \<or> c = 0x2D then cs else s);
              digits = takeWhile is_digit body;
              v = (if negative then - decimal_value digits else decimal_value digits)
          in if digits = [] then Inl (LibraryError (str ''expected integer''))
             else if v < - (2 ^ 63) \<or> 2 ^ 63 \<le> v then Inl (LibraryError (str ''value out of range''))
             else Inr v))"

section \<open>The parsers\<close>

text \<open>
  \<open>LegacyParser\<close> has the fields \<open>name\<close> and \<open>priority\<close>;
  \<open>JSONParser\<close> and \<open>YAMLParser\<close> have \<open>maxDepth\<close> and
  \<open>maxSize\<close> as well.
\<close>

record LegacyParser =
  name :: gostring
  priority :: int

record LimitParser = LegacyParser +
  maxDepth :: int
  maxSize :: int

type_synonym JSONParser = LimitParser
type_synonym YAMLParser = LimitParser

subsection \<open>LegacyParser\<close>

definition NewLegacyParser :: LegacyParser where
  "NewLegacyParser = \<lparr>name = str ''legacy'', priority = 1000\<rparr>"

definition LegacyParser_CanParse :: "LegacyParser \<Rightarrow> gostring \<Rightarrow> bool" where
  "LegacyParser_CanParse p comment = True"

text \<open>
  The loop of \<open>normalizeWhitespace\<close>, with \<open>prevIsSpace\<close> and the
  builder \<open>result\<close> as arguments.
\<close>

fun normalizeWhitespace_loop :: "bool \<Rightarrow> gostring \<Rightarrow> gostring \<Rightarrow> gostring" where
  "normalizeWhitespace_loop prevIsSpace result [] = result"
| "normalizeWhitespace_loop prevIsSpace result (r # rs) =
     (let isSpace = unicode_IsSpace r
      in normalizeWhitespace_loop isSpace
           (if isSpace then (if \<not> prevIsSpace then result @ [0x20] else result) else result @ [r]) rs)"

definition normalizeWhitespace :: "gostring \<Rightarrow> gostring" where
  "normalizeWhitespace s = strings_TrimSpace (normalizeWhitespace_loop False [] s)"

definition normalizeComment :: "gostring \<Rightarrow> gostring" where
  "normalizeComment comment = normalizeWhitespace (strings_TrimSpace comment)"

text \<open>
  The loop of \<open>splitWithEscape\<close> over \<open>s[i:]\<close>, with \<open>escaped\<close> and
  the builder \<open>current\<close> as arguments.  The delimiter is not empty here, so
  \<open>i += len(delimiter)\<close> skips \<open>s[i]\<close> and \<open>len(delimiter) - 1\<close> more.
\<close>

fun splitWithEscape_loop :: "gostring \<Rightarrow> bool \<Rightarrow> gostring \<Rightarrow> gostring \<Rightarrow> gostring list" where
  "splitWithEscape_loop delimiter escaped current [] = [current]"
| "splitWithEscape_loop delimiter escaped current (c # cs) =
     (if escaped then splitWithEscape_loop delimiter False (current @ [c]) cs
      else if c = 0x5C \<and> cs \<noteq> [] \<and> strings_HasPrefix cs delimiter
        then splitWithEscape_loop delimiter True current cs
      else if strings_HasPrefix (c # cs) delimiter
        then current # splitWithEscape_loop delimiter False [] (drop (length delimiter - 1) cs)
      else splitWithEscape_loop delimiter False (current @ [c]) cs)"

definition splitWithEscape :: "gostring \<Rightarrow> gostring \<Rightarrow> gostring list" where
  "splitWithEscape s delimiter =
     (if delimiter = [] \<or> s = [] then [s] else splitWithEscape_loop delimiter False [] s)"

definition LegacyParser_ParseComment ::
    "LegacyParser \<Rightarrow> gostring \<Rightarrow> gostring \<Rightarrow> CommentData option \<times> error option" where
  "LegacyParser_ParseComment p comment delimiter =
     (if comment = [] then (Some (CommentData_zero\<lparr>Source := comment\<rparr>), None)
      else
        let delimiter = (if delimiter = [] then str ''|'' else delimiter);
            normalizedComment = normalizeComment comment;
            parts = splitWithEscape normalizedComment delimiter;
            result = CommentData_zero\<lparr>Source := comment\<rparr>;
            result = (if length parts > 0
                      then result\<lparr>LogicalName := strings_TrimSpace (parts ! 0)\<rparr> else result);
            result = (if length parts > 1
                      then result\<lparr>Description := strings_TrimSpace (parts ! 1)\<rparr> else result)
        in (Some result, None))"

subsection \<open>What JSONParser and YAMLParser share\<close>

text \<open>\<open>getDepth\<close>, the same function in both parsers.\<close>

fun getDepth :: "GoValue \<Rightarrow> int" where
  "getDepth (VMap kvs) =
     fold (\<lambda>depth maxDepth. if depth > maxDepth then depth else maxDepth)
       (map (\<lambda>kv. getDepth (snd kv)) kvs) 0 + 1"
| "getDepth (VSlice vs) =
     fold (\<lambda>depth maxDepth. if depth > maxDepth then depth else maxDepth)
       (map getDepth vs) 0 + 1"
| "getDepth _ = 1"

text \<open>
  The two key loops of \<open>convertMapToCommentData\<close>: the value of the first
  key of the list that is present with a non-empty string, else the empty string.
\<close>

fun first_string :: "(gostring \<times> GoValue) list \<Rightarrow> gostring list \<Rightarrow> gostring" where
  "first_string data [] = []"
| "first_string data (key # keys) =
     (case map_of data key of
        Some (VString s) \<Rightarrow> if s \<noteq> [] then s else first_string data keys
      | _ \<Rightarrow> first_string data keys)"

text \<open>
  The metadata loop: every key that is not excluded is stored, a string as it
  is, any other value as \<open>fmt.Sprintf("%v", value)\<close>.
\<close>

definition extract_metadata ::
    "GoLib \<Rightarrow> gostring list \<Rightarrow> (gostring \<times> GoValue) list \<Rightarrow> (gostring \<rightharpoonup> gostring)" where
  "extract_metadata L excludeKeys data =
     (\<lambda>key. if key \<in> set excludeKeys then None
            else (case map_of data key of
                    None \<Rightarrow> None
                  | Some (VString s) \<Rightarrow> Some s
                  | Some v \<Rightarrow> Some (fmt_Sprintf L (str ''%v'') [AValue v])))"

definition item_string :: "GoLib \<Rightarrow> GoValue \<Rightarrow> gostring" where
  "item_string L item =
     (case item of VString s \<Rightarrow> s | _ \<Rightarrow> fmt_Sprintf L (str ''%v'') [AValue item])"

subsection \<open>JSONParser\<close>

definition NewJSONParser :: JSONParser where
  "NewJSONParser = \<lparr>name = str ''json'', priority = 10, maxDepth = 5, maxSize = 8192\<rparr>"

definition NewJSONParserWithLimits :: "int \<Rightarrow> int \<Rightarrow> JSONParser" where
  "NewJSONParserWithLimits d sz = NewJSONParser\<lparr>maxDepth := d, maxSize := sz\<rparr>"

definition JSONParser_CanParse :: "GoLib \<Rightarrow> JSONParser \<Rightarrow> gostring \<Rightarrow> bool" where
  "JSONParser_CanParse L p comment =
     (if comment = [] then False
      else if int (len comment) > maxSize p then False
      else
        let comment = strings_TrimSpace comment
        in if len comment < 2 then False
           else
             let hasValidBraces =
                   (hd comment = 0x7B \<and> last comment = 0x7D) \<or>
                   (hd comment = 0x5B \<and> last comment = 0x5D)
             in if \<not> hasValidBraces then False
                else (case json_Unmarshal L comment of Inl err \<Rightarrow> False | Inr rawData \<Rightarrow> True))"

definition JSONParser_convertToStringSlice :: "GoLib \<Rightarrow> GoValue \<Rightarrow> error + gostring list option" where
  "JSONParser_convertToStringSlice L v =
     (case v of
        VSlice items \<Rightarrow> Inr (Some (map (item_string L) items))
      | VStrings ss \<Rightarrow> Inr ss
      | VString s \<Rightarrow> Inr (Some [s])
      | _ \<Rightarrow> Inl (Errorf (str ''cannot convert %T to string slice'') [AValue v] None))"

definition JSONParser_excludeKeys :: "gostring list" where
  "JSONParser_excludeKeys =
     [str ''name'', str ''logical_name'', str ''logicalName'', str ''title'', str ''label'',
      str ''description'', str ''desc'', str ''comment'', str ''note'', str ''summary'',
      str ''tags'', str ''priority'', str ''deprecated'']"

definition JSONParser_convertMapToCommentData ::
    "GoLib \<Rightarrow> (gostring \<times> GoValue) list \<Rightarrow> error + CommentData" where
  "JSONParser_convertMapToCommentData L data =
     (let result = CommentData_zero;
          result = result\<lparr>LogicalName := first_string data
                     [str ''name'', str ''logical_name'', str ''logicalName'', str ''title'', str ''label'']\<rparr>;
          result = result\<lparr>Description := first_string data
                     [str ''description'', str ''desc'', str ''comment'', str ''note'', str ''summary'']\<rparr>;
          result = (case map_of data (str ''tags'') of
                      None \<Rightarrow> result
                    | Some v \<Rightarrow> (case JSONParser_convertToStringSlice L v of
                                  Inr tags \<Rightarrow> result\<lparr>Tags := tags\<rparr>
                                | Inl err \<Rightarrow> result));
          result = (case map_of data (str ''priority'') of
                      Some (VFloat num) \<Rightarrow> result\<lparr>Priority := int_of_float64 L num\<rparr>
                    | _ \<Rightarrow> result);
          result = (case map_of data (str ''deprecated'') of
                      Some (VBool deprecated) \<Rightarrow> result\<lparr>Deprecated := deprecated\<rparr>
                    | _ \<Rightarrow> result);
          result = result\<lparr>Metadata := Some (extract_metadata L JSONParser_excludeKeys data)\<rparr>
      in Inr result)"

definition JSONParser_convertToCommentData :: "GoLib \<Rightarrow> GoValue \<Rightarrow> error + CommentData" where
  "JSONParser_convertToCommentData L data =
     (case data of
        VMap v \<Rightarrow> JSONParser_convertMapToCommentData L v
      | VSlice v \<Rightarrow>
         (case v of
            VMap mapData # rest \<Rightarrow> JSONParser_convertMapToCommentData L mapData
          | _ \<Rightarrow> Inr CommentData_zero)
      | _ \<Rightarrow> Inr CommentData_zero)"

definition JSONParser_ParseComment ::
    "GoLib \<Rightarrow> JSONParser \<Rightarrow> gostring \<Rightarrow> gostring \<Rightarrow> CommentData option \<times> error option" where
  "JSONParser_ParseComment L p comment delimiter =
     (if comment = [] then (Some (CommentData_zero\<lparr>Source := comment\<rparr>), None)
      else
        let comment = strings_TrimSpace comment
        in if int (len comment) > maxSize p
           then (None, Some (NewCommentParseError (name p) comment (str ''comment too large'')
                               (Some ErrCommentTooLong)))
           else if \<not> JSONParser_CanParse L p comment
           then (None, Some (NewCommentParseError (name p) comment (str ''not a valid JSON format'')
                               (Some ErrInvalidCommentFormat)))
           else
             (case json_Unmarshal L comment of
                Inl err \<Rightarrow>
                  (None, Some (NewCommentParseError (name p) comment (str ''JSON unmarshal failed'')
                                 (Some err)))
              | Inr rawData \<Rightarrow>
                  if getDepth rawData > maxDepth p
                  then (None, Some (NewCommentParseError (name p) comment
                                      (str ''JSON structure too deep'') (Some ErrJSONTooDeep)))
                  else
                    (case JSONParser_convertToCommentData L rawData of
                       Inl err \<Rightarrow>
                         (None, Some (NewCommentParseError (name p) comment
                                        (str ''failed to convert to CommentData'') (Some err)))
                     | Inr result \<Rightarrow> (Some (result\<lparr>Source := comment\<rparr>), None))))"

subsection \<open>YAMLParser\<close>

definition NewYAMLParser :: YAMLParser where
  "NewYAMLParser = \<lparr>name = str ''yaml'', priority = 15, maxDepth = 5, maxSize = 8192\<rparr>"

definition NewYAMLParserWithLimits :: "int \<Rightarrow> int \<Rightarrow> YAMLParser" where
  "NewYAMLParserWithLimits d sz = NewYAMLParser\<lparr>maxDepth := d, maxSize := sz\<rparr>"

text \<open>
  A string literal of this theory cannot hold a backslash: \<open>pattern\<close> reads
  each \<open>%\<close> of its argument as a backslash.
\<close>

definition pattern :: "string \<Rightarrow> gostring" where
  "pattern cs = map (\<lambda>c. if c = CHR ''%'' then 0x5C else of_char c) cs"

definition yamlPatterns :: "gostring list" where
  "yamlPatterns =
     [pattern ''^%s*%w+%s*:%s*.+'',
      pattern ''^%s*-%s+%w+%s*:%s*.+'',
      pattern ''^%s*%w+%s*:%s*$'',
      pattern ''^%s*-%s+.*'',
      pattern ''^%s*%|%s*$'',
      pattern ''^%s*>%s*$'']"

definition looksLikeYAML :: "GoLib \<Rightarrow> gostring \<Rightarrow> bool" where
  "looksLikeYAML L comment =
     list_ex (\<lambda>line.
        let line = strings_TrimSpace line
        in \<not> (line = [] \<or> strings_HasPrefix line (str ''#'')) \<and>
           list_ex (\<lambda>pat. regexp_MatchString L pat line) yamlPatterns)
       (strings_Split1 comment 0x0A)"

definition YAMLParser_CanParse :: "GoLib \<Rightarrow> YAMLParser \<Rightarrow> gostring \<Rightarrow> bool" where
  "YAMLParser_CanParse L p comment =
     (if comment = [] then False
      else if int (len comment) > maxSize p then False
      else
        let comment = strings_TrimSpace comment
        in if len comment = 0 then False
           else if looksLikeYAML L comment
           then (case yaml_Unmarshal L comment of Inl err \<Rightarrow> False | Inr data \<Rightarrow> True)
           else False)"

definition YAMLParser_convertToStringSlice :: "GoLib \<Rightarrow> GoValue \<Rightarrow> error + gostring list option" where
  "YAMLParser_convertToStringSlice L v =
     (case v of
        VSlice items \<Rightarrow> Inr (Some (map (item_string L) items))
      | VStrings ss \<Rightarrow> Inr ss
      | VString s \<Rightarrow>
          if strings_Contains1 s 0x2C then Inr (Some (map strings_TrimSpace (strings_Split1 s 0x2C)))
          else Inr (Some [s])
      | _ \<Rightarrow> Inl (Errorf (str ''cannot convert %T to string slice'') [AValue v] None))"

definition parseIntFromString :: "gostring \<Rightarrow> error + int" where
  "parseIntFromString s =
     (let s = strings_TrimSpace s
      in if s = [] then Inl (Errorf (str ''empty string'') [] None)
         else if strings_Contains1 s 0x2E then Inl (Errorf (str ''contains decimal point'') [] None)
         else (case fmt_Sscanf_d s of Inl err \<Rightarrow> Inl err | Inr result \<Rightarrow> Inr result))"

definition YAMLParser_excludeKeys :: "gostring list" where
  "YAMLParser_excludeKeys =
     [str ''name'', str ''logical_name'', str ''logicalName'', str ''title'', str ''label'',
      str ''display_name'',
      str ''description'', str ''desc'', str ''comment'', str ''note'', str ''summary'',
      str ''details'',
      str ''tags'', str ''priority'', str ''deprecated'']"

text \<open>The priority switch of \<open>YAMLParser.convertMapToCommentData\<close>.\<close>

definition YAMLParser_priority :: "GoLib \<Rightarrow> CommentData \<Rightarrow> (gostring \<times> GoValue) list \<Rightarrow> CommentData" where
  "YAMLParser_priority L result data =
     (case map_of data (str ''priority'') of
        Some (VInt v) \<Rightarrow> result\<lparr>Priority := v\<rparr>
      | Some (VFloat v) \<Rightarrow> result\<lparr>Priority := int_of_float64 L v\<rparr>
      | Some (VString v) \<Rightarrow>
          (case parseIntFromString v of
             Inr prio \<Rightarrow> result\<lparr>Priority := prio\<rparr>
           | Inl err \<Rightarrow> result)
      | _ \<Rightarrow> result)"

definition YAMLParser_convertMapToCommentData ::
    "GoLib \<Rightarrow> (gostring \<times> GoValue) list \<Rightarrow> error + CommentData" where
  "YAMLParser_convertMapToCommentData L data =
     (let result = CommentData_zero;
          result = result\<lparr>LogicalName := first_string data
                     [str ''name'', str ''logical_name'', str ''logicalName'', str ''title'', str ''label'',
                      str ''display_name'']\<rparr>;
          result = result\<lparr>Description := first_string data
                     [str ''description'', str ''desc'', str ''comment'', str ''note'', str ''summary'',
                      str ''details'']\<rparr>;
          result = (case map_of data (str ''tags'') of
                      None \<Rightarrow> result
                    | Some v \<Rightarrow> (case YAMLParser_convertToStringSlice L v of
                                  Inr tags \<Rightarrow> result\<lparr>Tags := tags\<rparr>
                                | Inl err \<Rightarrow> result));
          result = YAMLParser_priority L result data;
          result = (case map_of data (str ''deprecated'') of
                      Some (VBool v) \<Rightarrow> result\<lparr>Deprecated := v\<rparr>
                    | Some (VString v) \<Rightarrow>
                        result\<lparr>Deprecated := (strings_ToLower L v = str ''true'' \<or> v = str ''1'' \<or>
                                               strings_ToLower L v = str ''yes'')\<rparr>
                    | _ \<Rightarrow> result);
          result = result\<lparr>Metadata := Some (extract_metadata L YAMLParser_excludeKeys data)\<rparr>
      in Inr result)"

definition YAMLParser_convertToCommentData :: "GoLib \<Rightarrow> GoValue \<Rightarrow> error + CommentData" where
  "YAMLParser_convertToCommentData L data =
     (case data of
        VMap v \<Rightarrow> YAMLParser_convertMapToCommentData L v
      | VSlice v \<Rightarrow>
         (case v of
            VMap mapData # rest \<Rightarrow> YAMLParser_convertMapToCommentData L mapData
          | _ \<Rightarrow> Inr CommentData_zero)
      | VString v \<Rightarrow> Inr (CommentData_zero\<lparr>Description := v\<rparr>)
      | _ \<Rightarrow> Inr CommentData_zero)"

definition YAMLParser_ParseComment ::
    "GoLib \<Rightarrow> YAMLParser \<Rightarrow> gostring \<Rightarrow> gostring \<Rightarrow> CommentData option \<times> error option" where
  "YAMLParser_ParseComment L p comment delimiter =
     (if comment = [] then (Some (CommentData_zero\<lparr>Source := comment\<rparr>), None)
      else
        let comment = strings_TrimSpace comment
        in if int (len comment) > maxSize p
           then (None, Some (NewCommentParseError (name p) comment (str ''comment too large'')
                               (Some ErrCommentTooLong)))
           else if \<not> YAMLParser_CanParse L p comment
           then (None, Some (NewCommentParseError (name p) comment (str ''not a valid YAML format'')
                               (Some ErrInvalidCommentFormat)))
           else
             (case yaml_Unmarshal L comment of
                Inl err \<Rightarrow>
                  (None, Some (NewCommentParseError (name p) comment (str ''YAML unmarshal failed'')
                                 (Some err)))
              | Inr rawData \<Rightarrow>
                  if getDepth rawData > maxDepth p
                  then (None, Some (NewCommentParseError (name p) comment
                                      (str ''YAML structure too deep'') (Some ErrYAMLParseError)))
                  else
                    (case YAMLParser_convertToCommentData L rawData of
                       Inl err \<Rightarrow>
                         (None, Some (NewCommentParseError (name p) comment
                                        (str ''failed to convert to CommentData'') (Some err)))
                     | Inr result \<Rightarrow> (Some (result\<lparr>Source := comment\<rparr>), None))))"

section \<open>The CommentParser interface and the registry\<close>

text \<open>
  A value of the interface \<open>CommentParser\<close> is one of the three parsers of
  the program, or any other implementation, given by what its four methods
  return.  \<open>ParseComment\<close> returns the pair of a pointer and an error,
  each of which may be \<open>nil\<close>.
\<close>

datatype CommentParser =
    JSON JSONParser
  | YAML YAMLParser
  | Legacy LegacyParser
  | Other gostring int "gostring \<Rightarrow> bool"
      "gostring \<Rightarrow> gostring \<Rightarrow> CommentData option \<times> error option"

fun Name :: "CommentParser \<Rightarrow> gostring" where
  "Name (JSON p) = name p"
| "Name (YAML p) = name p"
| "Name (Legacy p) = name p"
| "Name (Other n pr can parse) = n"

fun Priority_of :: "CommentParser \<Rightarrow> int" where
  "Priority_of (JSON p) = priority p"
| "Priority_of (YAML p) = priority p"
| "Priority_of (Legacy p) = priority p"
| "Priority_of (Other n pr can parse) = pr"

fun CanParse :: "GoLib \<Rightarrow> CommentParser \<Rightarrow> gostring \<Rightarrow> bool" where
  "CanParse L (JSON p) comment = JSONParser_CanParse L p comment"
| "CanParse L (YAML p) comment = YAMLParser_CanParse L p comment"
| "CanParse L (Legacy p) comment = LegacyParser_CanParse p comment"
| "CanParse L (Other n pr can parse) comment = can comment"

fun ParseComment ::
    "GoLib \<Rightarrow> CommentParser \<Rightarrow> gostring \<Rightarrow> gostring \<Rightarrow> CommentData option \<times> error option" where
  "ParseComment L (JSON p) comment delimiter = JSONParser_ParseComment L p comment delimiter"
| "ParseComment L (YAML p) comment delimiter = YAMLParser_ParseComment L p comment delimiter"
| "ParseComment L (Legacy p) comment delimiter = LegacyParser_ParseComment p comment delimiter"
| "ParseComment L (Other n pr can parse) comment delimiter = parse comment delimiter"

definition SetPriority :: "'a LegacyParser_scheme \<Rightarrow> int \<Rightarrow> 'a LegacyParser_scheme" where
  "SetPriority p n = p\<lparr>priority := n\<rparr>"

record DefaultParserRegistry =
  parsers :: "CommentParser list"

definition NewDefaultParserRegistry :: DefaultParserRegistry where
  "NewDefaultParserRegistry = \<lparr>parsers = []\<rparr>"

text \<open>
  The loop of \<open>RegisterParser\<close>: the parser is inserted before the first
  registered parser of a greater priority number, and appended if there is none.
\<close>

fun insert_parser :: "CommentParser \<Rightarrow> CommentParser list \<Rightarrow> CommentParser list" where
  "insert_parser parser [] = [parser]"
| "insert_parser parser (p # ps) =
     (if Priority_of parser < Priority_of p then parser # p # ps else p # insert_parser parser ps)"

definition RegisterParser :: "CommentParser option \<Rightarrow> DefaultParserRegistry \<Rightarrow> DefaultParserRegistry" where
  "RegisterParser parser r =
     (case parser of
        None \<Rightarrow> r
      | Some ps \<Rightarrow> r\<lparr>parsers := insert_parser ps (parsers r)\<rparr>)"

definition GetParsers :: "DefaultParserRegistry \<Rightarrow> CommentParser list" where
  "GetParsers r = parsers r"

text \<open>The loop of \<open>ParseWithFallback\<close>, with \<open>lastError\<close> as an argument.\<close>

fun ParseWithFallback_loop ::
    "GoLib \<Rightarrow> error option \<Rightarrow> CommentParser list \<Rightarrow> gostring \<Rightarrow> gostring \<Rightarrow>
     CommentData option \<times> error option" where
  "ParseWithFallback_loop L lastError [] comment delimiter =
     (case lastError of
        Some e \<Rightarrow> (None, Some (Errorf (str ''all parsers failed to parse comment: %w'') [] (Some e)))
      | None \<Rightarrow> (None, Some (NewCommentParseError (str ''registry'') comment
                                (str ''no suitable parser found'') (Some ErrUnsupportedFormat))))"
| "ParseWithFallback_loop L lastError (parser # rest) comment delimiter =
     (if CanParse L parser comment
      then (case ParseComment L parser comment delimiter of
              (Some result, None) \<Rightarrow> (Some (result\<lparr>Source := comment\<rparr>), None)
            | (result, err) \<Rightarrow> ParseWithFallback_loop L err rest comment delimiter)
      else ParseWithFallback_loop L lastError rest comment delimiter)"

definition ParseWithFallback ::
    "GoLib \<Rightarrow> DefaultParserRegistry \<Rightarrow> gostring \<Rightarrow> gostring \<Rightarrow> CommentData option \<times> error option" where
  "ParseWithFallback L r comment delimiter =
     (if comment = [] then (Some (CommentData_zero\<lparr>Source := comment\<rparr>), None)
      else ParseWithFallback_loop L None (parsers r) comment delimiter)"

definition Clear :: "DefaultParserRegistry \<Rightarrow> DefaultParserRegistry" where
  "Clear r = r\<lparr>parsers := []\<rparr>"

section \<open>The validator\<close>

record ValidationConfig =
  MaxLogicalNameLength :: int
  MaxDescriptionLength :: int
  MaxTagCount :: int
  MaxTagLength :: int
  MaxMetadataCount :: int
  MaxMetadataKeyLength :: int
  MaxMetadataValueLength :: int
  AllowedCharPattern :: gostring
  ForbiddenWords :: "gostring list"
  EnableHTMLEscape :: bool
  EnableSQLInjectionCheck :: bool

definition DefaultValidationConfig :: ValidationConfig where
  "DefaultValidationConfig = \<lparr>
     MaxLogicalNameLength = 100, MaxDescriptionLength = 1000, MaxTagCount = 20, MaxTagLength = 50,
     MaxMetadataCount = 50, MaxMetadataKeyLength = 100, MaxMetadataValueLength = 500,
     AllowedCharPattern = pattern ''^[%p{L}%p{N}%p{P}%p{S}%p{Zs}]+$'',
     ForbiddenWords = [str ''DROP'', str ''DELETE'', str ''INSERT'', str ''UPDATE'', str ''EXEC'',
                       str ''SCRIPT''],
     EnableHTMLEscape = True, EnableSQLInjectionCheck = True\<rparr>"

definition StrictValidationConfig :: ValidationConfig where
  "StrictValidationConfig = \<lparr>
     MaxLogicalNameLength = 50, MaxDescriptionLength = 500, MaxTagCount = 10, MaxTagLength = 30,
     MaxMetadataCount = 20, MaxMetadataKeyLength = 50, MaxMetadataValueLength = 200,
     AllowedCharPattern = pattern ''^[%p{L}%p{N}%p{Zs}%-_.,()[%]{}:;'\"!?]+$'',
     ForbiddenWords = [str ''DROP'', str ''DELETE'', str ''INSERT'', str ''UPDATE'', str ''EXEC'',
                       str ''SCRIPT'', str ''UNION'', str ''SELECT'', str ''FROM'', str ''WHERE''],
     EnableHTMLEscape = True, EnableSQLInjectionCheck = True\<rparr>"

definition PermissiveValidationConfig :: ValidationConfig where
  "PermissiveValidationConfig = \<lparr>
     MaxLogicalNameLength = 200, MaxDescriptionLength = 2000, MaxTagCount = 50, MaxTagLength = 100,
     MaxMetadataCount = 100, MaxMetadataKeyLength = 200, MaxMetadataValueLength = 1000,
     AllowedCharPattern = [],
     ForbiddenWords = [],
     EnableHTMLEscape = False, EnableSQLInjectionCheck = False\<rparr>"

text \<open>
  The field \<open>config\<close> of the validator is \<open>vconfig\<close> here (the processor
  has a field \<open>config\<close> as well).  A compiled regular expression is
  represented by its pattern, \<open>nil\<close> by \<open>None\<close>; matching goes through
  \<open>regexp_MatchString\<close>.
\<close>

record DefaultCommentValidator =
  vconfig :: ValidationConfig
  allowedCharRegex :: "gostring option"
  sqlInjectionRegex :: "gostring option"

definition sqlPattern :: gostring where
  "sqlPattern = pattern
     ''(?i)(union%s+select|or%s+1%s*=%s*1|and%s+1%s*=%s*1|'|%-%-|%/%*|%*%/|xp_|sp_|exec|execute|drop%s+table|delete%s+from|insert%s+into|update%s+set)''"

definition NewDefaultCommentValidatorWithConfig :: "ValidationConfig \<Rightarrow> DefaultCommentValidator" where
  "NewDefaultCommentValidatorWithConfig cfg = \<lparr>
     vconfig = cfg,
     allowedCharRegex = (if AllowedCharPattern cfg \<noteq> [] then Some (AllowedCharPattern cfg) else None),
     sqlInjectionRegex = (if EnableSQLInjectionCheck cfg then Some sqlPattern else None)\<rparr>"

definition NewDefaultCommentValidator :: DefaultCommentValidator where
  "NewDefaultCommentValidator = NewDefaultCommentValidatorWithConfig DefaultValidationConfig"

subsection \<open>Sanitize\<close>

text \<open>
  \<open>unicode.IsPrint\<close>: for Latin-1 the letters, marks, numbers, punctuation,
  symbols and the ASCII space; above Latin-1 membership in the print ranges.
\<close>

definition unicode_IsPrint :: "GoLib \<Rightarrow> rune \<Rightarrow> bool" where
  "unicode_IsPrint L r =
     (if r \<le> 0xFF then (0x20 \<le> r \<and> r \<le> 0x7E) \<or> (0xA1 \<le> r \<and> r \<noteq> 0xAD)
      else unicode_In_PrintRanges L r)"

definition removeControlChars :: "GoLib \<Rightarrow> gostring \<Rightarrow> gostring" where
  "removeControlChars L text =
     filter (\<lambda>r. unicode_IsPrint L r \<or> r = 0x09 \<or> r = 0x0A \<or> r = 0x0D) text"

text \<open>\<open>html.EscapeString\<close>: the five characters it replaces.\<close>

definition html_escape_rune :: "rune \<Rightarrow> gostring" where
  "html_escape_rune r =
     (if r = 0x26 then str ''&amp;''
      else if r = 0x27 then str ''&#39;''
      else if r = 0x3C then str ''&lt;''
      else if r = 0x3E then str ''&gt;''
      else if r = 0x22 then str ''&#34;''
      else [r])"

definition html_EscapeString :: "gostring \<Rightarrow> gostring" where
  "html_EscapeString s = concat (map html_escape_rune s)"

text \<open>
  \<open>regexp.MustCompile(`\s+`).ReplaceAllString(text, " ")\<close>: the class
  \<open>\s\<close> is tab, newline, form feed, carriage return and space; every
  maximal run of it becomes one space (\<open>inRun\<close>: the rune before was of
  the class).
\<close>

definition regexp_space :: "rune \<Rightarrow> bool" where
  "regexp_space r \<longleftrightarrow> r = 0x09 \<or> r = 0x0A \<or> r = 0x0C \<or> r = 0x0D \<or> r = 0x20"

fun replace_space_runs :: "bool \<Rightarrow> gostring \<Rightarrow> gostring" where
  "replace_space_runs inRun [] = []"
| "replace_space_runs inRun (r # rs) =
     (if regexp_space r
      then (if inRun then replace_space_runs True rs else 0x20 # replace_space_runs True rs)
      else r # replace_space_runs False rs)"

definition sanitizeString :: "GoLib \<Rightarrow> DefaultCommentValidator \<Rightarrow> gostring \<Rightarrow> gostring" where
  "sanitizeString L v text =
     (if text = [] then text
      else
        let text = strings_TrimSpace text;
            text = removeControlChars L text;
            text = (if EnableHTMLEscape (vconfig v) then html_EscapeString text else text)
        in replace_space_runs False text)"

text \<open>
  The metadata loop of \<open>Sanitize\<close>.  Go visits the keys of a map in an
  order of its choosing; \<open>keys\<close> is the order of this run.  When two keys
  sanitize to the same key, the entry visited later stays.
\<close>

fun sanitize_metadata ::
    "GoLib \<Rightarrow> DefaultCommentValidator \<Rightarrow> (gostring \<rightharpoonup> gostring) \<Rightarrow> gostring list \<Rightarrow>
     (gostring \<rightharpoonup> gostring) \<Rightarrow> (gostring \<rightharpoonup> gostring)" where
  "sanitize_metadata L v metadata [] sanitizedMetadata = sanitizedMetadata"
| "sanitize_metadata L v metadata (key # keys) sanitizedMetadata =
     (case metadata key of
        None \<Rightarrow> sanitize_metadata L v metadata keys sanitizedMetadata
      | Some val \<Rightarrow>
          let sanitizedKey = sanitizeString L v key;
              sanitizedValue = sanitizeString L v val
          in sanitize_metadata L v metadata keys
               (if sanitizedKey \<noteq> [] \<and> sanitizedValue \<noteq> []
                then sanitizedMetadata(sanitizedKey \<mapsto> sanitizedValue) else sanitizedMetadata))"

definition Sanitize ::
    "GoLib \<Rightarrow> DefaultCommentValidator \<Rightarrow> gostring list \<Rightarrow> CommentData option \<Rightarrow> CommentData option" where
  "Sanitize L v keys data =
     (case data of
        None \<Rightarrow> None
      | Some d \<Rightarrow>
          let sanitized = Clone d;
              sanitized = sanitized\<lparr>LogicalName := sanitizeString L v (LogicalName sanitized)\<rparr>;
              sanitized = sanitized\<lparr>Description := sanitizeString L v (Description sanitized)\<rparr>;
              sanitized = (if length (elems (Tags sanitized)) > 0
                           then sanitized\<lparr>Tags := Some (filter (\<lambda>sanitizedTag. sanitizedTag \<noteq> [])
                                                    (map (sanitizeString L v) (elems (Tags sanitized))))\<rparr>
                           else sanitized);
              sanitized = (if entries (Metadata sanitized) \<noteq> Map.empty
                           then sanitized\<lparr>Metadata := Some (sanitize_metadata L v
                                                          (entries (Metadata sanitized)) keys Map.empty)\<rparr>
                           else sanitized)
          in Some sanitized)"

subsection \<open>Validate\<close>

fun strings_Contains :: "gostring \<Rightarrow> gostring \<Rightarrow> bool" where
  "strings_Contains [] substr = (substr = [])"
| "strings_Contains (c # cs) substr =
     (strings_HasPrefix (c # cs) substr \<or> strings_Contains cs substr)"

definition validateCharPattern ::
    "GoLib \<Rightarrow> DefaultCommentValidator \<Rightarrow> gostring \<Rightarrow> gostring \<Rightarrow> error option" where
  "validateCharPattern L v text field =
     (case allowedCharRegex v of
        None \<Rightarrow> None
      | Some re \<Rightarrow>
          if text = [] then None
          else if \<not> regexp_MatchString L re text
          then Some (NewCommentValidationError field text (str ''contains invalid characters'')
                       (Some ErrInvalidCharacters))
          else None)"

definition validateForbiddenWords ::
    "GoLib \<Rightarrow> DefaultCommentValidator \<Rightarrow> gostring \<Rightarrow> gostring \<Rightarrow> error option" where
  "validateForbiddenWords L v text field =
     (if length (ForbiddenWords (vconfig v)) = 0 \<or> text = [] then None
      else
        let upperText = strings_ToUpper L text
        in (case find (\<lambda>word. strings_Contains upperText (strings_ToUpper L word))
                   (ForbiddenWords (vconfig v)) of
              Some word \<Rightarrow>
                Some (NewCommentValidationError field text
                        (fmt_Sprintf L (str ''contains forbidden word: %s'') [AString word])
                        (Some ErrInvalidCharacters))
            | None \<Rightarrow> None))"

definition validateSQLInjection ::
    "GoLib \<Rightarrow> DefaultCommentValidator \<Rightarrow> gostring \<Rightarrow> gostring \<Rightarrow> error option" where
  "validateSQLInjection L v text field =
     (if \<not> EnableSQLInjectionCheck (vconfig v) then None
      else (case sqlInjectionRegex v of
              None \<Rightarrow> None
            | Some re \<Rightarrow>
                if text = [] then None
                else if regexp_MatchString L re text
                then Some (NewCommentValidationError field text
                             (str ''potentially contains SQL injection patterns'')
                             (Some ErrInvalidCharacters))
                else None))"

text \<open>
  The first error of a sequence of checks, as the chain of
  \<open>if err := ...; err != nil { return err }\<close> returns it.
\<close>

fun first_error :: "error option list \<Rightarrow> error option" where
  "first_error [] = None"
| "first_error (Some err # checks) = Some err"
| "first_error (None # checks) = first_error checks"

definition validateLogicalName :: "GoLib \<Rightarrow> DefaultCommentValidator \<Rightarrow> gostring \<Rightarrow> error option" where
  "validateLogicalName L v logicalName =
     (if logicalName = [] then None
      else if int (length logicalName) > MaxLogicalNameLength (vconfig v)
      then Some (NewCommentValidationError (str ''logical_name'') logicalName
                   (fmt_Sprintf L (str ''logical name too long (max: %d)'')
                      [AInt (MaxLogicalNameLength (vconfig v))])
                   (Some ErrLogicalNameTooLong))
      else first_error
             [validateCharPattern L v logicalName (str ''logical_name''),
              validateForbiddenWords L v logicalName (str ''logical_name''),
              validateSQLInjection L v logicalName (str ''logical_name'')])"

definition validateDescription :: "GoLib \<Rightarrow> DefaultCommentValidator \<Rightarrow> gostring \<Rightarrow> error option" where
  "validateDescription L v description =
     (if description = [] then None
      else if int (length description) > MaxDescriptionLength (vconfig v)
      then Some (NewCommentValidationError (str ''description'') description
                   (fmt_Sprintf L (str ''description too long (max: %d)'')
                      [AInt (MaxDescriptionLength (vconfig v))])
                   (Some ErrDescriptionTooLong))
      else first_error
             [validateCharPattern L v description (str ''description''),
              validateForbiddenWords L v description (str ''description''),
              validateSQLInjection L v description (str ''description'')])"

text \<open>The tag loop of \<open>validateTags\<close>, from index \<open>i\<close> on.\<close>

fun validateTags_loop ::
    "GoLib \<Rightarrow> DefaultCommentValidator \<Rightarrow> int \<Rightarrow> gostring list \<Rightarrow> error option" where
  "validateTags_loop L v i [] = None"
| "validateTags_loop L v i (tag # tags) =
     (if tag = []
      then Some (NewCommentValidationError (str ''tags'') tag
                   (fmt_Sprintf L (str ''empty tag at index %d'') [AInt i]) None)
      else if int (length tag) > MaxTagLength (vconfig v)
      then Some (NewCommentValidationError (str ''tags'') tag
                   (fmt_Sprintf L (str ''tag too long at index %d (max: %d)'')
                      [AInt i, AInt (MaxTagLength (vconfig v))]) None)
      else
        (case first_error
                [validateCharPattern L v tag (fmt_Sprintf L (str ''tags[%d]'') [AInt i]),
                 validateForbiddenWords L v tag (fmt_Sprintf L (str ''tags[%d]'') [AInt i]),
                 validateSQLInjection L v tag (fmt_Sprintf L (str ''tags[%d]'') [AInt i])] of
           Some err \<Rightarrow> Some err
         | None \<Rightarrow> validateTags_loop L v (i + 1) tags))"

definition validateTags :: "GoLib \<Rightarrow> DefaultCommentValidator \<Rightarrow> gostring list \<Rightarrow> error option" where
  "validateTags L v tags =
     (if length tags = 0 then None
      else if int (length tags) > MaxTagCount (vconfig v)
      then Some (NewCommentValidationError (str ''tags'') (fmt_Sprintf L (str ''%v'') [AStrings tags])
                   (fmt_Sprintf L (str ''too many tags (max: %d)'') [AInt (MaxTagCount (vconfig v))])
                   None)
      else validateTags_loop L v 0 tags)"

text \<open>
  The entry loop of \<open>validateMetadata\<close>, over the keys in the order in
  which this run visits them.
\<close>

fun validateMetadata_loop ::
    "GoLib \<Rightarrow> DefaultCommentValidator \<Rightarrow> (gostring \<rightharpoonup> gostring) \<Rightarrow> gostring list \<Rightarrow> error option" where
  "validateMetadata_loop L v metadata [] = None"
| "validateMetadata_loop L v metadata (key # keys) =
     (case metadata key of
        None \<Rightarrow> validateMetadata_loop L v metadata keys
      | Some val \<Rightarrow>
          if key = []
          then Some (NewCommentValidationError (str ''metadata'') key (str ''empty metadata key'') None)
          else if int (length key) > MaxMetadataKeyLength (vconfig v)
          then Some (NewCommentValidationError (str ''metadata'') key
                       (fmt_Sprintf L (str ''metadata key too long (max: %d)'')
                          [AInt (MaxMetadataKeyLength (vconfig v))]) None)
          else if int (length val) > MaxMetadataValueLength (vconfig v)
          then Some (NewCommentValidationError (str ''metadata'') val
                       (fmt_Sprintf L (str ''metadata value too long for key '%s' (max: %d)'')
                          [AString key, AInt (MaxMetadataValueLength (vconfig v))]) None)
          else
            (case first_error
                    [validateCharPattern L v key (fmt_Sprintf L (str ''metadata[%s].key'') [AString key]),
                     validateCharPattern L v val (fmt_Sprintf L (str ''metadata[%s].value'') [AString key]),
                     validateForbiddenWords L v key (fmt_Sprintf L (str ''metadata[%s].key'') [AString key]),
                     validateForbiddenWords L v val (fmt_Sprintf L (str ''metadata[%s].value'') [AString key]),
                     validateSQLInjection L v key (fmt_Sprintf L (str ''metadata[%s].key'') [AString key]),
                     validateSQLInjection L v val (fmt_Sprintf L (str ''metadata[%s].value'') [AString key])] of
               Some err \<Rightarrow> Some err
             | None \<Rightarrow> validateMetadata_loop L v metadata keys))"

definition validateMetadata ::
    "GoLib \<Rightarrow> DefaultCommentValidator \<Rightarrow> gostring list \<Rightarrow> (gostring \<rightharpoonup> gostring) \<Rightarrow> error option" where
  "validateMetadata L v keys metadata =
     (if metadata = Map.empty then None
      else if int (card (dom metadata)) > MaxMetadataCount (vconfig v)
      then Some (NewCommentValidationError (str ''metadata'') (fmt_Sprintf L (str ''%v'') [AMap metadata])
                   (fmt_Sprintf L (str ''too many metadata entries (max: %d)'')
                      [AInt (MaxMetadataCount (vconfig v))]) None)
      else validateMetadata_loop L v metadata keys)"

definition Validate ::
    "GoLib \<Rightarrow> DefaultCommentValidator \<Rightarrow> gostring list \<Rightarrow> CommentData option \<Rightarrow> error option" where
  "Validate L v keys data =
     (case data of
        None \<Rightarrow> Some (NewCommentValidationError (str ''data'') [] (str ''CommentData is nil'') None)
      | Some d \<Rightarrow>
          first_error
            [validateLogicalName L v (LogicalName d),
             validateDescription L v (Description d),
             validateTags L v (elems (Tags d)),
             validateMetadata L v keys (entries (Metadata d))])"

text \<open>
  \<open>ValidateAndSanitize\<close>; \<open>keys1\<close> is the order of the loop of
  \<open>Sanitize\<close>, \<open>keys2\<close> that of \<open>validateMetadata\<close>.
\<close>

definition ValidateAndSanitize ::
    "GoLib \<Rightarrow> DefaultCommentValidator \<Rightarrow> gostring list \<Rightarrow> gostring list \<Rightarrow> CommentData option \<Rightarrow>
     CommentData option \<times> error option" where
  "ValidateAndSanitize L v keys1 keys2 data =
     (let sanitized = Sanitize L v keys1 data
      in (case Validate L v keys2 sanitized of
            Some err \<Rightarrow> (None, Some err)
          | None \<Rightarrow> (sanitized, None)))"

section \<open>The processor\<close>

type_synonym ObjectType = gostring

definition ObjectTypeTable :: ObjectType where "ObjectTypeTable = str ''table''"
definition ObjectTypeColumn :: ObjectType where "ObjectTypeColumn = str ''column''"

record ProcessingConfig =
  EnableValidation :: bool
  EnableSanitization :: bool
  DefaultDelimiter :: gostring
  FallbackToLegacy :: bool
  StrictMode :: bool
  ProcessingTimeout :: int

definition DefaultProcessingConfig :: ProcessingConfig where
  "DefaultProcessingConfig = \<lparr>EnableValidation = True, EnableSanitization = True,
     DefaultDelimiter = str ''|'', FallbackToLegacy = True, StrictMode = False,
     ProcessingTimeout = 1000\<rparr>"

record EnhancedCommentProcessor =
  registry :: DefaultParserRegistry
  validator :: "DefaultCommentValidator option"
  config :: ProcessingConfig

text \<open>The values that the methods of an \<open>EnhancedCommentConfigurator\<close> return.\<close>

record EnhancedCommentConfigurator =
  IsEnhancedCommentEnabled :: bool
  IsEnhancedCommentJSONEnabled :: bool
  IsEnhancedCommentYAMLEnabled :: bool
  EnhancedCommentPreferredFormat :: gostring
  IsEnhancedCommentValidationEnabled :: bool
  IsEnhancedCommentSanitizationEnabled :: bool
  EnhancedCommentSecurityLevel :: gostring
  IsEnhancedCommentStrictMode :: bool
  EnhancedCommentProcessingTimeout :: int
  IsEnhancedCommentObjectTypeEnabled :: "gostring \<Rightarrow> bool"
  LogicalNameDelimiter :: gostring

definition registerDefaultParsers :: "EnhancedCommentProcessor \<Rightarrow> EnhancedCommentProcessor" where
  "registerDefaultParsers p =
     (let p = p\<lparr>registry := RegisterParser (Some (JSON NewJSONParser)) (registry p)\<rparr>
      in p\<lparr>registry := RegisterParser (Some (Legacy NewLegacyParser)) (registry p)\<rparr>)"

definition NewEnhancedCommentProcessor :: EnhancedCommentProcessor where
  "NewEnhancedCommentProcessor =
     registerDefaultParsers
       \<lparr>registry = NewDefaultParserRegistry, validator = Some NewDefaultCommentValidator,
        config = DefaultProcessingConfig\<rparr>"

definition NewEnhancedCommentProcessorWithConfig :: "ProcessingConfig \<Rightarrow> EnhancedCommentProcessor" where
  "NewEnhancedCommentProcessorWithConfig cfg =
     registerDefaultParsers
       \<lparr>registry = NewDefaultParserRegistry, validator = Some NewDefaultCommentValidator,
        config = cfg\<rparr>"

definition registerParsersFromConfig ::
    "EnhancedCommentConfigurator \<Rightarrow> EnhancedCommentProcessor \<Rightarrow> EnhancedCommentProcessor" where
  "registerParsersFromConfig cfg p =
     (let preferredFormat = EnhancedCommentPreferredFormat cfg;
          legacy_last = (\<lambda>p. p\<lparr>registry :=
              RegisterParser (Some (Legacy (SetPriority NewLegacyParser 20))) (registry p)\<rparr>)
      in if preferredFormat = str ''json'' then
           let p = (if IsEnhancedCommentJSONEnabled cfg
                    then p\<lparr>registry := RegisterParser (Some (JSON (SetPriority NewJSONParser 5))) (registry p)\<rparr>
                    else p);
               p = (if IsEnhancedCommentYAMLEnabled cfg
                    then p\<lparr>registry := RegisterParser (Some (YAML (SetPriority NewYAMLParser 15))) (registry p)\<rparr>
                    else p)
           in legacy_last p
         else if preferredFormat = str ''yaml'' then
           let p = (if IsEnhancedCommentYAMLEnabled cfg
                    then p\<lparr>registry := RegisterParser (Some (YAML (SetPriority NewYAMLParser 5))) (registry p)\<rparr>
                    else p);
               p = (if IsEnhancedCommentJSONEnabled cfg
                    then p\<lparr>registry := RegisterParser (Some (JSON (SetPriority NewJSONParser 10))) (registry p)\<rparr>
                    else p)
           in legacy_last p
         else if preferredFormat = str ''legacy'' then
           p\<lparr>registry := RegisterParser (Some (Legacy (SetPriority NewLegacyParser 5))) (registry p)\<rparr>
         else
           let p = (if IsEnhancedCommentJSONEnabled cfg
                    then p\<lparr>registry := RegisterParser (Some (JSON (SetPriority NewJSONParser 10))) (registry p)\<rparr>
                    else p);
               p = (if IsEnhancedCommentYAMLEnabled cfg
                    then p\<lparr>registry := RegisterParser (Some (YAML (SetPriority NewYAMLParser 15))) (registry p)\<rparr>
                    else p)
           in legacy_last p)"

definition createValidatorFromConfig :: "EnhancedCommentConfigurator \<Rightarrow> DefaultCommentValidator" where
  "createValidatorFromConfig cfg =
     (if \<not> IsEnhancedCommentValidationEnabled cfg then NewDefaultCommentValidator
      else
        let validationConfig =
              (if EnhancedCommentSecurityLevel cfg = str ''strict'' then StrictValidationConfig
               else if EnhancedCommentSecurityLevel cfg = str ''permissive'' then PermissiveValidationConfig
               else DefaultValidationConfig);
            validationConfig = validationConfig\<lparr>
              EnableHTMLEscape := IsEnhancedCommentSanitizationEnabled cfg,
              EnableSQLInjectionCheck := IsEnhancedCommentValidationEnabled cfg\<rparr>
        in NewDefaultCommentValidatorWithConfig validationConfig)"

definition NewEnhancedCommentProcessorFromConfig :: "EnhancedCommentConfigurator \<Rightarrow> EnhancedCommentProcessor" where
  "NewEnhancedCommentProcessorFromConfig cfg =
     (if \<not> IsEnhancedCommentEnabled cfg then NewEnhancedCommentProcessor
      else
        let processingConfig = \<lparr>
              EnableValidation = IsEnhancedCommentValidationEnabled cfg,
              EnableSanitization = IsEnhancedCommentSanitizationEnabled cfg,
              DefaultDelimiter = LogicalNameDelimiter cfg,
              FallbackToLegacy = True,
              StrictMode = IsEnhancedCommentStrictMode cfg,
              ProcessingTimeout = EnhancedCommentProcessingTimeout cfg\<rparr>;
            processor = \<lparr>registry = NewDefaultParserRegistry,
              validator = Some (createValidatorFromConfig cfg),
              config = processingConfig\<rparr>
        in registerParsersFromConfig cfg processor)"

definition processCommentInternal ::
    "GoLib \<Rightarrow> EnhancedCommentProcessor \<Rightarrow> gostring \<Rightarrow> gostring \<Rightarrow> ObjectType \<Rightarrow>
     CommentData option \<times> error option" where
  "processCommentInternal L p comment delimiter objectType =
     (case ParseWithFallback L (registry p) comment delimiter of
        (result, Some err) \<Rightarrow>
          if StrictMode (config p)
          then (None, Some (Errorf (str ''failed to parse comment: %w'') [] (Some err)))
          else (Some (CommentData_zero\<lparr>Source := comment\<rparr>), None)
      | (None, None) \<Rightarrow> (None, Some (Panic (str ''nil pointer dereference'')))
      | (Some result, None) \<Rightarrow>
          (Some (result\<lparr>Metadata :=
                    Some ((entries (Metadata result))(str ''object_type'' \<mapsto> objectType))\<rparr>), None))"

text \<open>
  \<open>ProcessComment\<close> runs \<open>processCommentInternal\<close> in a goroutine and
  waits for its result or for the timer, whichever the \<open>select\<close> statement
  receives first; \<open>timerFirst\<close> says that it is the timer.
\<close>

definition ProcessComment ::
    "GoLib \<Rightarrow> EnhancedCommentProcessor \<Rightarrow> bool \<Rightarrow> gostring \<Rightarrow> gostring \<Rightarrow> ObjectType \<Rightarrow>
     CommentData option \<times> error option" where
  "ProcessComment L p timerFirst comment delimiter objectType =
     (if comment = [] then (Some (CommentData_zero\<lparr>Source := comment\<rparr>), None)
      else
        let delimiter = (if delimiter = [] then DefaultDelimiter (config p) else delimiter)
        in if timerFirst
           then (None, Some (Errorf (str ''comment processing timeout after %d ms'')
                               [AInt (ProcessingTimeout (config p))] None))
           else processCommentInternal L p comment delimiter objectType)"

text \<open>
  The orders in which the range loops of one call of
  \<open>ProcessCommentWithValidation\<close> visit the metadata keys: the loop of the
  first \<open>Sanitize\<close>, the loop of \<open>validateMetadata\<close>, and the loop of the
  \<open>Sanitize\<close> that follows a failed validation.
\<close>

record MapOrders =
  sanitize_keys :: "gostring list"
  validate_keys :: "gostring list"
  resanitize_keys :: "gostring list"

definition ProcessCommentWithValidation ::
    "GoLib \<Rightarrow> EnhancedCommentProcessor \<Rightarrow> bool \<Rightarrow> MapOrders \<Rightarrow> gostring \<Rightarrow> gostring \<Rightarrow> ObjectType \<Rightarrow>
     CommentData option \<times> error option" where
  "ProcessCommentWithValidation L p timerFirst orders comment delimiter objectType =
     (case ProcessComment L p timerFirst comment delimiter objectType of
        (result, Some err) \<Rightarrow> (None, Some err)
      | (result, None) \<Rightarrow>
          (case validator p of
             None \<Rightarrow> (result, None)
           | Some v \<Rightarrow>
               if EnableValidation (config p) then
                 if EnableSanitization (config p) then
                   (case ValidateAndSanitize L v (sanitize_keys orders) (validate_keys orders) result of
                      (validated, Some err) \<Rightarrow>
                        if StrictMode (config p)
                        then (None, Some (Errorf (str ''validation failed: %w'') [] (Some err)))
                        else (Sanitize L v (resanitize_keys orders) result, None)
                    | (validated, None) \<Rightarrow> (validated, None))
                 else
                   (case Validate L v (validate_keys orders) result of
                      Some err \<Rightarrow>
                        if StrictMode (config p)
                        then (None, Some (Errorf (str ''validation failed: %w'') [] (Some err)))
                        else (result, None)
                    | None \<Rightarrow> (result, None))
               else if EnableSanitization (config p) then (Sanitize L v (sanitize_keys orders) result, None)
               else (result, None)))"

definition SetValidator :: "DefaultCommentValidator option \<Rightarrow> EnhancedCommentProcessor \<Rightarrow> EnhancedCommentProcessor" where
  "SetValidator v p = p\<lparr>validator := v\<rparr>"

definition SetConfig :: "ProcessingConfig \<Rightarrow> EnhancedCommentProcessor \<Rightarrow> EnhancedCommentProcessor" where
  "SetConfig cfg p = p\<lparr>config := cfg\<rparr>"

section \<open>Concrete inputs\<close>

text \<open>
  An instance of the library functions for the evaluations below.  Its
  \<open>fmt_Sprintf\<close> formats an integer for the verb \<open>%d\<close> and a string for
  the verb \<open>%s\<close>, as \<open>fmt.Sprintf\<close> does; every other verb it leaves in
  place, which is not what Go prints.  Its decoders know the JSON documents
  \<open>{}\<close> and \<open>{"object_type ":"x"}\<close> (the key ends with a space) and
  the YAML document \<open>a: b\<close>, its matcher the first YAML pattern on
  \<open>a: b\<close>; its case mappings are right on strings without letters, and no
  rune above Latin-1 is printable for it.  Its \<open>int_of_unrepresentable\<close> is
  what the amd64 instruction gives, the smallest \<open>int\<close>.
\<close>

definition spaced_key_comment :: gostring where
  "spaced_key_comment = str ''{\"object_type \":\"x\"}''"

fun nat_digits :: "nat \<Rightarrow> gostring" where
  "nat_digits n = (if n < 10 then [0x30 + n] else nat_digits (n div 10) @ [0x30 + n mod 10])"

declare nat_digits.simps [simp del]

definition strconv_Itoa :: "int \<Rightarrow> gostring" where
  "strconv_Itoa i = (if i < 0 then 0x2D # nat_digits (nat (- i)) else nat_digits (nat i))"

fun format_arg :: "rune \<Rightarrow> fmtarg \<Rightarrow> gostring option" where
  "format_arg verb (AInt i) = (if verb = 0x64 then Some (strconv_Itoa i) else None)"
| "format_arg verb (AString s) = (if verb = 0x73 then Some s else None)"
| "format_arg verb arg = None"

fun sample_Sprintf :: "gostring \<Rightarrow> fmtarg list \<Rightarrow> gostring" where
  "sample_Sprintf [] args = []"
| "sample_Sprintf [c] args = [c]"
| "sample_Sprintf (c # d # cs) args =
     (if c = 0x25
      then (case args of
              [] \<Rightarrow> c # d # sample_Sprintf cs args
            | arg # rest \<Rightarrow>
                (case format_arg d arg of
                   Some s \<Rightarrow> s @ sample_Sprintf cs rest
                 | None \<Rightarrow> c # d # sample_Sprintf cs rest))
      else c # sample_Sprintf (d # cs) args)"

definition sample_lib :: GoLib where
  "sample_lib = \<lparr>
     json_Unmarshal = (\<lambda>s.
        if s = str ''{}'' then Inr (VMap [])
        else if s = spaced_key_comment then Inr (VMap [(str ''object_type '', VString (str ''x''))])
        else Inl (LibraryError (str ''invalid character''))),
     yaml_Unmarshal = (\<lambda>s.
        if s = str ''a: b'' then Inr (VMap [(str ''a'', VString (str ''b''))])
        else Inl (LibraryError (str ''yaml: did not find expected node content''))),
     fmt_Sprintf = sample_Sprintf,
     regexp_MatchString = (\<lambda>pat s. pat = pattern ''^%s*%w+%s*:%s*.+'' \<and> s = str ''a: b''),
     strings_ToLower = (\<lambda>s. s),
     strings_ToUpper = (\<lambda>s. s),
     unicode_In_PrintRanges = (\<lambda>r. False),
     int_of_unrepresentable = (\<lambda>v. - (2 ^ 63))\<rparr>"


text \<open>
  The two errors that \<open>ProcessCommentWithValidation\<close> makes in strict mode:
  a parse error wraps the error of the registry, a validation error that of the
  validator.
\<close>

fun parse_failure :: "error \<Rightarrow> bool" where
  "parse_failure (Errorf f args (Some e)) \<longleftrightarrow> f = str ''failed to parse comment: %w'' \<and> args = []"
| "parse_failure err \<longleftrightarrow> False"

fun validation_failure :: "error \<Rightarrow> bool" where
  "validation_failure (Errorf f args (Some e)) \<longleftrightarrow> f = str ''validation failed: %w'' \<and> args = []"
| "validation_failure err \<longleftrightarrow> False"

text \<open>A configurator with every feature enabled and the format \<open>auto\<close>.\<close>

definition default_cfg :: EnhancedCommentConfigurator where
  "default_cfg = \<lparr>IsEnhancedCommentEnabled = True, IsEnhancedCommentJSONEnabled = True,
     IsEnhancedCommentYAMLEnabled = True, EnhancedCommentPreferredFormat = str ''auto'',
     IsEnhancedCommentValidationEnabled = True, IsEnhancedCommentSanitizationEnabled = True,
     EnhancedCommentSecurityLevel = str ''default'', IsEnhancedCommentStrictMode = False,
     EnhancedCommentProcessingTimeout = 1000, IsEnhancedCommentObjectTypeEnabled = (\<lambda>t. True),
     LogicalNameDelimiter = str ''|''\<rparr>"

text \<open>
  The specification's ``string parseable as a base-10 integer'': an optional sign, then
  one or more decimal digits and nothing else; and a string that begins like
  one.
\<close>

definition decimal_integer :: "gostring \<Rightarrow> int option" where
  "decimal_integer s =
     (case s of
        [] \<Rightarrow> None
      | c # cs \<Rightarrow>
          let body = (if c = 0x2B \<or> c = 0x2D then cs else s)
          in if body \<noteq> [] \<and> list_all is_digit body
             then Some (if c = 0x2D then - decimal_value body else decimal_value body)
             else None)"

definition starts_with_integer :: "gostring \<Rightarrow> bool" where
  "starts_with_integer s =
     (case s of
        [] \<Rightarrow> False
      | c # cs \<Rightarrow>
          (case (if c = 0x2B \<or> c = 0x2D then cs else s) of
             [] \<Rightarrow> False
           | d # ds \<Rightarrow> is_digit d))"

text \<open>The priority of the record that \<open>YAMLParser.convertMapToCommentData\<close> returns.\<close>

definition YAMLParser_extracted_priority :: "GoLib \<Rightarrow> (gostring \<times> GoValue) list \<Rightarrow> int option" where
  "YAMLParser_extracted_priority L data =
     (case YAMLParser_convertMapToCommentData L data of Inr result \<Rightarrow> Some (Priority result) | Inl err \<Rightarrow> None)"

text \<open>
  Processors and inputs for the evaluations: a validator that allows logical
  names of one character only, the default processor with that validator, a
  processor whose registry holds only a JSON parser of maximal depth 0, the
  key orders for a metadata map with the single key \<open>object_type\<close>, and
  the record that the default parsers return for the comment \<open>ab|c\<close> of a
  column.
\<close>

definition short_name_validator :: DefaultCommentValidator where
  "short_name_validator =
     NewDefaultCommentValidatorWithConfig (PermissiveValidationConfig\<lparr>MaxLogicalNameLength := 1\<rparr>)"

definition short_name_processor :: EnhancedCommentProcessor where
  "short_name_processor = SetValidator (Some short_name_validator) NewEnhancedCommentProcessor"

definition json_only_processor :: EnhancedCommentProcessor where
  "json_only_processor = NewEnhancedCommentProcessor\<lparr>registry :=
     RegisterParser (Some (JSON (NewJSONParserWithLimits 0 8192)))
       (Clear (registry NewEnhancedCommentProcessor))\<rparr>"


definition spaced_key_last :: MapOrders where
  "spaced_key_last = \<lparr>sanitize_keys = [str ''object_type'', str ''object_type ''],
     validate_keys = [str ''object_type'', str ''object_type ''],
     resanitize_keys = [str ''object_type'', str ''object_type '']\<rparr>"

definition object_type_first :: MapOrders where
  "object_type_first = \<lparr>sanitize_keys = [str ''object_type''], validate_keys = [str ''object_type''],
     resanitize_keys = [str ''object_type'']\<rparr>"

definition ab_c_record :: CommentData where
  "ab_c_record = \<lparr>LogicalName = str ''ab'', Description = str ''c'', Tags = None,
     Metadata = Some [str ''object_type'' \<mapsto> str ''column''], Priority = 0, Deprecated = False,
     Source = str ''ab|c''\<rparr>"


text \<open>
  The characters that \<open>html.EscapeString\<close> replaces, and the strings on
  which sanitizing twice is the same as sanitizing once: what is left of the
  string when it is trimmed and \<open>removeControlChars\<close> has deleted its
  runes neither begins nor ends with white space, and, when HTML escaping is
  enabled, holds none of the replaced characters.
\<close>

definition html_special :: "rune \<Rightarrow> bool" where
  "html_special r \<longleftrightarrow> r = 0x26 \<or> r = 0x27 \<or> r = 0x3C \<or> r = 0x3E \<or> r = 0x22"

definition sanitize_stable :: "GoLib \<Rightarrow> DefaultCommentValidator \<Rightarrow> gostring \<Rightarrow> bool" where
  "sanitize_stable L v s \<longleftrightarrow>
     (let u = removeControlChars L (strings_TrimSpace s)
      in strings_TrimSpace u = u \<and>
         (\<not> EnableHTMLEscape (vconfig v) \<or> list_all (\<lambda>r. \<not> html_special r) u))"

text \<open>A record with white space to normalise, and what \<open>Sanitize\<close> makes of it.\<close>

definition spaced_record :: CommentData where
  "spaced_record = \<lparr>LogicalName = str '' a  b'', Description = [], Tags = Some [str ''t''],
     Metadata = Some [str ''k'' \<mapsto> str ''v''], Priority = 0, Deprecated = False, Source = str ''x''\<rparr>"

definition spaced_record_sanitized :: CommentData where
  "spaced_record_sanitized = \<lparr>LogicalName = str ''a b'', Description = [], Tags = Some [str ''t''],
     Metadata = Some [str ''k'' \<mapsto> str ''v''], Priority = 0, Deprecated = False, Source = str ''x''\<rparr>"

section \<open>Evaluation of the parsers on concrete comments\<close>

lemma elems_simps [simp]: "elems None = []" "elems (Some xs) = xs"
  by (simp_all add: elems_def)

lemma entries_simps [simp]: "entries None = Map.empty" "entries (Some m) = m"
  by (simp_all add: entries_def)

lemmas eval_defs = str_def strings_TrimSpace_def unicode_IsSpace_def strings_HasPrefix_def
  len_def rune_width_def CommentData_zero_def NewCommentParseError_def

lemma legacy_a_b:
  "LegacyParser_ParseComment NewLegacyParser (str ''a|b'') (str ''|'') =
     (Some (CommentData_zero\<lparr>LogicalName := str ''a'', Description := str ''b'',
              Source := str ''a|b''\<rparr>), None)"
  by (simp add: LegacyParser_ParseComment_def eval_defs normalizeComment_def
      normalizeWhitespace_def splitWithEscape_def)

lemma json_cannot_a_b: "\<not> JSONParser_CanParse L NewJSONParser (str ''a|b'')"
  by (simp add: JSONParser_CanParse_def NewJSONParser_def eval_defs)

lemma json_can_empty_object:
  "JSONParser_CanParse sample_lib (NewJSONParserWithLimits 0 8192) (str ''{}'')"
  by (simp add: JSONParser_CanParse_def NewJSONParser_def NewJSONParserWithLimits_def
      sample_lib_def eval_defs)

lemma json_parse_empty_object:
  "JSONParser_ParseComment sample_lib (NewJSONParserWithLimits 0 8192) (str ''{}'') (str ''|'') =
    (None, Some (CommentParseError (str ''json'') (str ''{}'') (str ''JSON structure too deep'')
                   (Some ErrJSONTooDeep)))"
  by (simp add: JSONParser_ParseComment_def JSONParser_CanParse_def NewJSONParser_def
      NewJSONParserWithLimits_def sample_lib_def eval_defs)


section \<open>The registry: order of registration and fallback\<close>







section \<open>Parsers registered by the constructors\<close>

lemma registry_default: "parsers (registry NewEnhancedCommentProcessor) = [JSON NewJSONParser, Legacy NewLegacyParser]"
  by (simp add: NewEnhancedCommentProcessor_def registerDefaultParsers_def RegisterParser_def
      NewDefaultParserRegistry_def NewJSONParser_def NewLegacyParser_def)

lemma registry_with_config: "parsers (registry (NewEnhancedCommentProcessorWithConfig cfg)) = [JSON NewJSONParser, Legacy NewLegacyParser]"
  by (simp add: NewEnhancedCommentProcessorWithConfig_def registerDefaultParsers_def RegisterParser_def
      NewDefaultParserRegistry_def NewJSONParser_def NewLegacyParser_def)

lemma registry_from_config:
  "IsEnhancedCommentEnabled cf \<Longrightarrow>
   parsers (registry (NewEnhancedCommentProcessorFromConfig cf)) =
     (if EnhancedCommentPreferredFormat cf = str ''legacy''
      then [Legacy (NewLegacyParser\<lparr>priority := 5\<rparr>)]
      else if EnhancedCommentPreferredFormat cf = str ''json''
      then (if IsEnhancedCommentJSONEnabled cf then [JSON (NewJSONParser\<lparr>priority := 5\<rparr>)] else []) @
           (if IsEnhancedCommentYAMLEnabled cf then [YAML (NewYAMLParser\<lparr>priority := 15\<rparr>)] else []) @
           [Legacy (NewLegacyParser\<lparr>priority := 20\<rparr>)]
      else if EnhancedCommentPreferredFormat cf = str ''yaml''
      then (if IsEnhancedCommentYAMLEnabled cf then [YAML (NewYAMLParser\<lparr>priority := 5\<rparr>)] else []) @
           (if IsEnhancedCommentJSONEnabled cf then [JSON (NewJSONParser\<lparr>priority := 10\<rparr>)] else []) @
           [Legacy (NewLegacyParser\<lparr>priority := 20\<rparr>)]
      else (if IsEnhancedCommentJSONEnabled cf then [JSON (NewJSONParser\<lparr>priority := 10\<rparr>)] else []) @
           (if IsEnhancedCommentYAMLEnabled cf then [YAML (NewYAMLParser\<lparr>priority := 15\<rparr>)] else []) @
           [Legacy (NewLegacyParser\<lparr>priority := 20\<rparr>)])"
  by (simp add: NewEnhancedCommentProcessorFromConfig_def registerParsersFromConfig_def Let_def
      RegisterParser_def NewDefaultParserRegistry_def SetPriority_def
      NewJSONParser_def NewYAMLParser_def NewLegacyParser_def str_def)

text \<open>
  C7.  With enhanced comments enabled, the processor built by
  \<open>NewEnhancedCommentProcessorFromConfig\<close> has these parsers, in this
  order: for the preferred format \<open>legacy\<close> the legacy parser alone (with
  priority 5); for every other value the legacy parser last with priority 20,
  after the JSON and YAML parsers that are enabled: JSON 5 and YAML 15 for
  \<open>json\<close>, YAML 5 and JSON 10 for \<open>yaml\<close>, JSON 10 and YAML 15 for
  \<open>auto\<close> and any other value.
\<close>

theorem registerParsersFromConfig_priorities:
  assumes "IsEnhancedCommentEnabled cf"
  shows "parsers (registry (NewEnhancedCommentProcessorFromConfig cf)) =
     (if EnhancedCommentPreferredFormat cf = str ''legacy''
      then [Legacy (NewLegacyParser\<lparr>priority := 5\<rparr>)]
      else if EnhancedCommentPreferredFormat cf = str ''json''
      then (if IsEnhancedCommentJSONEnabled cf then [JSON (NewJSONParser\<lparr>priority := 5\<rparr>)] else []) @
           (if IsEnhancedCommentYAMLEnabled cf then [YAML (NewYAMLParser\<lparr>priority := 15\<rparr>)] else []) @
           [Legacy (NewLegacyParser\<lparr>priority := 20\<rparr>)]
      else if EnhancedCommentPreferredFormat cf = str ''yaml''
      then (if IsEnhancedCommentYAMLEnabled cf then [YAML (NewYAMLParser\<lparr>priority := 5\<rparr>)] else []) @
           (if IsEnhancedCommentJSONEnabled cf then [JSON (NewJSONParser\<lparr>priority := 10\<rparr>)] else []) @
           [Legacy (NewLegacyParser\<lparr>priority := 20\<rparr>)]
      else (if IsEnhancedCommentJSONEnabled cf then [JSON (NewJSONParser\<lparr>priority := 10\<rparr>)] else []) @
           (if IsEnhancedCommentYAMLEnabled cf then [YAML (NewYAMLParser\<lparr>priority := 15\<rparr>)] else []) @
           [Legacy (NewLegacyParser\<lparr>priority := 20\<rparr>)])"
  using assms by (rule registry_from_config)

theorem registerParsersFromConfig_priorities_witness:
  "IsEnhancedCommentEnabled default_cfg \<and>
   map (\<lambda>p. (Name p, Priority_of p)) (parsers (registry (NewEnhancedCommentProcessorFromConfig default_cfg))) =
     [(str ''json'', 10), (str ''yaml'', 15), (str ''legacy'', 20)] \<and>
   IsEnhancedCommentEnabled (default_cfg\<lparr>EnhancedCommentPreferredFormat := str ''legacy''\<rparr>) \<and>
   map (\<lambda>p. (Name p, Priority_of p))
     (parsers (registry (NewEnhancedCommentProcessorFromConfig
        (default_cfg\<lparr>EnhancedCommentPreferredFormat := str ''legacy''\<rparr>)))) =
     [(str ''legacy'', 5)]"
  using registerParsersFromConfig_priorities[of default_cfg]
    registerParsersFromConfig_priorities[of "default_cfg\<lparr>EnhancedCommentPreferredFormat := str ''legacy''\<rparr>"]
  by (simp add: default_cfg_def NewJSONParser_def NewYAMLParser_def NewLegacyParser_def str_def)

section \<open>The legacy parser as the fallback that never fails\<close>

lemma LegacyParser_ParseComment_ok:
  "\<exists>result. LegacyParser_ParseComment lp comment delimiter = (Some result, None) \<and> Source result = comment"
  by (simp add: LegacyParser_ParseComment_def Let_def CommentData_zero_def)

lemma loop_with_legacy:
  "Legacy lp \<in> set ps \<Longrightarrow>
   \<exists>result. ParseWithFallback_loop L lastError ps comment delimiter = (Some result, None)"
proof (induction ps arbitrary: lastError)
  case Nil
  then show ?case by simp
next
  case (Cons p ps)
  show ?case
  proof (cases "p = Legacy lp")
    case True
    then show ?thesis
      using LegacyParser_ParseComment_ok[of lp comment delimiter]
      by (auto simp: LegacyParser_CanParse_def)
  next
    case False
    then have "Legacy lp \<in> set ps" using Cons.prems by simp
    then show ?thesis using Cons.IH
      by (auto split: prod.splits option.splits)
  qed
qed

text \<open>
  C10.  If the registry of a processor contains a \<open>LegacyParser\<close>, then
  \<open>ParseWithFallback\<close> returns a record and no error for every comment,
  and so does \<open>processCommentInternal\<close>: the branch for a parse error is
  not taken.  The three constructors all register a \<open>LegacyParser\<close>.
\<close>

theorem legacy_parser_never_fails:
  "(Legacy lp \<in> set (parsers (registry p)) \<longrightarrow>
      (\<exists>result. ParseWithFallback L (registry p) comment delimiter = (Some result, None)) \<and>
      (\<exists>result. processCommentInternal L p comment delimiter objectType = (Some result, None))) \<and>
   (\<exists>lp. Legacy lp \<in> set (parsers (registry NewEnhancedCommentProcessor))) \<and>
   (\<exists>lp. Legacy lp \<in> set (parsers (registry (NewEnhancedCommentProcessorWithConfig cfg)))) \<and>
   (\<exists>lp. Legacy lp \<in> set (parsers (registry (NewEnhancedCommentProcessorFromConfig cf))))"
proof -
  have a: "\<exists>result. ParseWithFallback L (registry p) comment delimiter = (Some result, None)"
    if "Legacy lp \<in> set (parsers (registry p))"
    using loop_with_legacy[OF that] by (simp add: ParseWithFallback_def)
  have b: "\<exists>result. processCommentInternal L p comment delimiter objectType = (Some result, None)"
    if "Legacy lp \<in> set (parsers (registry p))"
    using a[OF that] by (auto simp: processCommentInternal_def)
  have c: "\<exists>lp. Legacy lp \<in> set (parsers (registry (NewEnhancedCommentProcessorFromConfig cf)))"
  proof (cases "IsEnhancedCommentEnabled cf")
    case True
    then show ?thesis by (simp add: registry_from_config)
  next
    case False
    then show ?thesis by (simp add: NewEnhancedCommentProcessorFromConfig_def registry_default)
  qed
  show ?thesis using a b c by (simp add: registry_default registry_with_config)
qed

theorem legacy_parser_never_fails_witness:
  "Legacy NewLegacyParser \<in> set (parsers (registry NewEnhancedCommentProcessor)) \<and>
   ParseWithFallback sample_lib (registry NewEnhancedCommentProcessor) (str ''a|b'') (str ''|'') =
     (Some (CommentData_zero\<lparr>LogicalName := str ''a'', Description := str ''b'',
              Source := str ''a|b''\<rparr>), None) \<and>
   processCommentInternal sample_lib NewEnhancedCommentProcessor (str ''a|b'') (str ''|'') ObjectTypeColumn =
     (Some (CommentData_zero\<lparr>LogicalName := str ''a'', Description := str ''b'',
              Metadata := Some [str ''object_type'' \<mapsto> str ''column''],
              Source := str ''a|b''\<rparr>), None)"
proof -
  have ne: "str ''a|b'' \<noteq> []" by (simp add: str_def)
  have pw: "ParseWithFallback sample_lib (registry NewEnhancedCommentProcessor) (str ''a|b'') (str ''|'') =
     (Some (CommentData_zero\<lparr>LogicalName := str ''a'', Description := str ''b'',
              Source := str ''a|b''\<rparr>), None)"
    by (simp add: ParseWithFallback_def ne registry_default json_cannot_a_b legacy_a_b
        LegacyParser_CanParse_def CommentData_zero_def)
  show ?thesis
    using legacy_parser_never_fails[of NewLegacyParser NewEnhancedCommentProcessor sample_lib
        "str ''a|b''" "str ''|''" ObjectTypeColumn]
    by (simp add: registry_default pw processCommentInternal_def ObjectTypeColumn_def
        CommentData_zero_def entries_def)
qed

section \<open>Merge\<close>

lemma remdups_snoc: "remdups (xs @ [x]) = remdups (filter (\<lambda>y. y \<noteq> x) xs) @ [x]"
  by (induction xs) auto

text \<open>
  What the tag loop computes: the tags of \<open>other\<close> that are not in
  \<open>tagSet\<close> are appended, each once, in the order of their first occurrence;
  when there is none, \<open>merged\<close> is left as it is.
\<close>

lemma merge_tags_eq:
  "merge_tags tagSet merged tags =
     (if list_all (\<lambda>tag. tag \<in> tagSet) tags then merged
      else Some (elems merged @ rev (remdups (rev (filter (\<lambda>tag. tag \<notin> tagSet) tags)))))"
proof (induction tags arbitrary: tagSet merged)
  case Nil
  then show ?case by simp
next
  case (Cons tag tags)
  show ?case
  proof (cases "tag \<in> tagSet")
    case True
    then show ?thesis using Cons.IH[of tagSet merged] by simp
  next
    case False
    have f: "filter (\<lambda>y. y \<noteq> tag) (rev (filter (\<lambda>t. t \<notin> tagSet) tags)) =
             rev (filter (\<lambda>t. t \<notin> insert tag tagSet) tags)"
      by (simp add: rev_filter[symmetric] conj_commute)
    have e: "filter (\<lambda>t. t \<notin> insert tag tagSet) tags = []"
      if "list_all (\<lambda>t. t \<in> insert tag tagSet) tags"
      using that by (induction tags) auto
    show ?thesis
    proof (cases "list_all (\<lambda>t. t \<in> insert tag tagSet) tags")
      case True
      then show ?thesis
        using False Cons.IH[of "insert tag tagSet" "Some (elems merged @ [tag])"] e
        by (simp add: remdups_snoc f)
    next
      case nall: False
      then show ?thesis
        using False Cons.IH[of "insert tag tagSet" "Some (elems merged @ [tag])"]
        by (simp add: remdups_snoc f elems_def)
    qed
  qed
qed

lemma Clone_fields:
  "LogicalName (Clone a) = LogicalName a" "Description (Clone a) = Description a"
  "elems (Tags (Clone a)) = elems (Tags a)" "entries (Metadata (Clone a)) = entries (Metadata a)"
  "Priority (Clone a) = Priority a" "Deprecated (Clone a) = Deprecated a" "Source (Clone a) = Source a"
  by (simp_all add: Clone_def)

text \<open>
  What \<open>Merge\<close> computes, for all records \<open>a\<close> and \<open>b\<close>.  The logical
  name and the description are those of \<open>a\<close> where they are not empty and
  those of \<open>b\<close> otherwise.  The priority, the deprecated flag and the source
  are always those of \<open>a\<close>: no statement of \<open>Merge\<close> reads them from
  \<open>b\<close>.  The tags are all the tags of \<open>a\<close>, duplicates included,
  followed by the tags of \<open>b\<close> that are not among them, each once.  The
  metadata are the entries of \<open>a\<close> and the entries of \<open>b\<close> whose key
  \<open>a\<close> does not have.
\<close>

lemma Merge_eq:
  "Merge (Some a) (Some b) = Some \<lparr>
      LogicalName = (if LogicalName a \<noteq> [] then LogicalName a else LogicalName b),
      Description = (if Description a \<noteq> [] then Description a else Description b),
      Tags = (if list_all (\<lambda>tag. tag \<in> set (elems (Tags a))) (elems (Tags b)) then Tags (Clone a)
              else Some (elems (Tags a) @
                     rev (remdups (rev (filter (\<lambda>tag. tag \<notin> set (elems (Tags a))) (elems (Tags b))))))),
      Metadata = (if entries (Metadata b) = Map.empty then Metadata (Clone a)
                  else Some (entries (Metadata b) ++ entries (Metadata a))),
      Priority = Priority a,
      Deprecated = Deprecated a,
      Source = Source a\<rparr>"
proof -
  define c where "c = Clone a"
  have e: "elems (Tags b) = [] \<Longrightarrow> list_all P (elems (Tags b))" for P by simp
  have "Merge (Some a) (Some b) = Some
     (((c\<lparr>LogicalName := (if LogicalName a \<noteq> [] then LogicalName a else LogicalName b)\<rparr>)
        \<lparr>Description := (if Description a \<noteq> [] then Description a else Description b)\<rparr>)
        \<lparr>Tags := (if list_all (\<lambda>tag. tag \<in> set (elems (Tags a))) (elems (Tags b)) then Tags c
              else Some (elems (Tags a) @
                     rev (remdups (rev (filter (\<lambda>tag. tag \<notin> set (elems (Tags a))) (elems (Tags b))))))),
          Metadata := (if entries (Metadata b) = Map.empty then Metadata c
                  else Some (entries (Metadata b) ++ entries (Metadata a)))\<rparr>)"
    unfolding Merge_def c_def[symmetric]
    using e by (simp add: Let_def merge_tags_eq c_def Clone_fields)
  also have "\<dots> = Some \<lparr>
      LogicalName = (if LogicalName a \<noteq> [] then LogicalName a else LogicalName b),
      Description = (if Description a \<noteq> [] then Description a else Description b),
      Tags = (if list_all (\<lambda>tag. tag \<in> set (elems (Tags a))) (elems (Tags b)) then Tags c
              else Some (elems (Tags a) @
                     rev (remdups (rev (filter (\<lambda>tag. tag \<notin> set (elems (Tags a))) (elems (Tags b))))))),
      Metadata = (if entries (Metadata b) = Map.empty then Metadata c
                  else Some (entries (Metadata b) ++ entries (Metadata a))),
      Priority = Priority a,
      Deprecated = Deprecated a,
      Source = Source a\<rparr>"
    by (simp add: c_def Clone_def)
  finally show ?thesis by (simp add: c_def)
qed

lemma Merge_nil:
  "Merge (Some a) None = Some (Clone a)" "Merge None (Some b) = Some (Clone b)" "Merge None None = None"
  by (simp_all add: Merge_def)

text \<open>
  C6, at two concrete inputs.  First, the receiver is the empty record and
  \<open>other\<close> has priority 5 and is deprecated: the merged record should have
  priority 5 and be deprecated, as the fallback of the two string fields and
  the comment on \<open>Merge\<close> (the receiver wins, what is empty in it is taken
  from \<open>other\<close>) have it; \<open>Merge\<close> returns the empty record.  Second,
  the receiver has the tags \<open>x, x\<close> and \<open>other\<close> the tag \<open>y\<close>: the
  merged tags should be \<open>x, y\<close>, as the comment on the tag loop (merge,
  duplicates removed) has it; \<open>Merge\<close> returns \<open>x, x, y\<close>.
\<close>

theorem Merge_fallback:
  "Merge (Some CommentData_zero) (Some (CommentData_zero\<lparr>Priority := 5, Deprecated := True\<rparr>)) =
     Some CommentData_zero \<and>
   Merge (Some (CommentData_zero\<lparr>Tags := Some [str ''x'', str ''x'']\<rparr>))
         (Some (CommentData_zero\<lparr>Tags := Some [str ''y'']\<rparr>)) =
     Some (CommentData_zero\<lparr>Tags := Some [str ''x'', str ''x'', str ''y'']\<rparr>)"
  by (simp add: Merge_def Clone_def CommentData_zero_def elems_def entries_def str_def)

section \<open>The Source field of the three parsers\<close>

lemma JSONParser_Source:
  "JSONParser_ParseComment L p comment delimiter = (Some result, err) \<Longrightarrow>
   Source result = strings_TrimSpace comment"
  by (auto simp: JSONParser_ParseComment_def Let_def CommentData_zero_def strings_TrimSpace_def
      split: if_splits sum.splits)

lemma YAMLParser_Source:
  "YAMLParser_ParseComment L p comment delimiter = (Some result, err) \<Longrightarrow>
   Source result = strings_TrimSpace comment"
  by (auto simp: YAMLParser_ParseComment_def Let_def CommentData_zero_def strings_TrimSpace_def
      split: if_splits sum.splits)

lemma LegacyParser_Source:
  "LegacyParser_ParseComment p comment delimiter = (Some result, err) \<Longrightarrow> Source result = comment"
  by (auto simp: LegacyParser_ParseComment_def Let_def CommentData_zero_def split: if_splits)

lemma pattern1: "pattern ''^%s*%w+%s*:%s*.+'' \<in> set yamlPatterns"
  by (simp add: yamlPatterns_def)

lemma parser_fields:
  "maxSize NewJSONParser = 8192" "maxDepth NewJSONParser = 5" "name NewJSONParser = str ''json''"
  "maxSize NewYAMLParser = 8192" "maxDepth NewYAMLParser = 5" "name NewYAMLParser = str ''yaml''"
  by (simp_all add: NewJSONParser_def NewYAMLParser_def)

lemma trim_json: "strings_TrimSpace (str '' {}'') = str ''{}''" "strings_TrimSpace (str ''{}'') = str ''{}''"
  by (simp_all add: eval_defs)

lemma trim_yaml: "strings_TrimSpace (str '' a: b'') = str ''a: b''" "strings_TrimSpace (str ''a: b'') = str ''a: b''"
  by (simp_all add: eval_defs)

lemma len_samples: "len (str '' {}'') = 3" "len (str ''{}'') = 2" "len (str '' a: b'') = 5" "len (str ''a: b'') = 4"
  by (simp_all add: eval_defs)

lemma unmarshal_samples:
  "json_Unmarshal sample_lib (str ''{}'') = Inr (VMap [])"
  "yaml_Unmarshal sample_lib (str ''a: b'') = Inr (VMap [(str ''a'', VString (str ''b''))])"
  by (simp_all add: sample_lib_def)

lemma json_can_spaced:
  "JSONParser_CanParse sample_lib NewJSONParser (str '' {}'')"
  "JSONParser_CanParse sample_lib NewJSONParser (str ''{}'')"
  by (simp_all add: JSONParser_CanParse_def trim_json len_samples unmarshal_samples NewJSONParser_def)
     (simp_all add: str_def)

lemma looksLikeYAML_sample: "looksLikeYAML sample_lib (str ''a: b'')"
  by (simp add: looksLikeYAML_def strings_Split1_def yamlPatterns_def sample_lib_def eval_defs)

lemma yaml_can_spaced:
  "YAMLParser_CanParse sample_lib NewYAMLParser (str '' a: b'')"
  "YAMLParser_CanParse sample_lib NewYAMLParser (str ''a: b'')"
  by (simp_all add: YAMLParser_CanParse_def trim_yaml len_samples unmarshal_samples
      looksLikeYAML_sample NewYAMLParser_def)
     (simp_all add: str_def)

text \<open>
  C4, at concrete inputs.  \<open>JSONParser\<close> accepts the comment \<open>" {}"\<close>
  and \<open>YAMLParser\<close> accepts \<open>" a: b"\<close>; the records they return have
  the trimmed comment as \<open>Source\<close>, which is not the input.  (The two
  lemmas above show this for every accepted comment; \<open>LegacyParser\<close>
  keeps the input.)
\<close>

theorem structured_parsers_trim_Source:
  "JSONParser_CanParse sample_lib NewJSONParser (str '' {}'') \<and>
   map_option Source (fst (JSONParser_ParseComment sample_lib NewJSONParser (str '' {}'') (str ''|'')))
     = Some (str ''{}'') \<and>
   snd (JSONParser_ParseComment sample_lib NewJSONParser (str '' {}'') (str ''|'')) = None \<and>
   YAMLParser_CanParse sample_lib NewYAMLParser (str '' a: b'') \<and>
   map_option Source (fst (YAMLParser_ParseComment sample_lib NewYAMLParser (str '' a: b'') (str ''|'')))
     = Some (str ''a: b'') \<and>
   snd (YAMLParser_ParseComment sample_lib NewYAMLParser (str '' a: b'') (str ''|'')) = None \<and>
   str '' {}'' \<noteq> str ''{}'' \<and> str '' a: b'' \<noteq> str ''a: b''"
proof -
  have ne: "str '' {}'' \<noteq> []" "str '' a: b'' \<noteq> []" by (simp_all add: str_def)
  have j: "map_option Source (fst (JSONParser_ParseComment sample_lib NewJSONParser (str '' {}'') (str ''|'')))
     = Some (str ''{}'') \<and>
     snd (JSONParser_ParseComment sample_lib NewJSONParser (str '' {}'') (str ''|'')) = None"
    by (simp add: JSONParser_ParseComment_def ne trim_json len_samples json_can_spaced
        unmarshal_samples JSONParser_convertToCommentData_def
        JSONParser_convertMapToCommentData_def Let_def parser_fields)
  have y: "map_option Source (fst (YAMLParser_ParseComment sample_lib NewYAMLParser (str '' a: b'') (str ''|'')))
     = Some (str ''a: b'') \<and>
     snd (YAMLParser_ParseComment sample_lib NewYAMLParser (str '' a: b'') (str ''|'')) = None"
    by (simp add: YAMLParser_ParseComment_def ne trim_yaml len_samples yaml_can_spaced
        unmarshal_samples YAMLParser_convertToCommentData_def
        YAMLParser_convertMapToCommentData_def Let_def parser_fields)
  have d: "str '' {}'' \<noteq> str ''{}'' \<and> str '' a: b'' \<noteq> str ''a: b''" by (simp add: str_def)
  show ?thesis using json_can_spaced(1) yaml_can_spaced(1) j y d by simp
qed

section \<open>The priority field of a YAML mapping\<close>

lemma Priority_tags_step:
  "Priority (case x of None \<Rightarrow> r
             | Some v \<Rightarrow> (case f v of Inr tags \<Rightarrow> r\<lparr>Tags := tags\<rparr> | Inl err \<Rightarrow> r)) = Priority r"
  by (simp split: option.splits sum.splits)

lemma Priority_deprecated_step:
  "Priority (case x of Some (VBool v) \<Rightarrow> r\<lparr>Deprecated := v\<rparr>
             | Some (VString v) \<Rightarrow> r\<lparr>Deprecated := g v\<rparr>
             | _ \<Rightarrow> r) = Priority r"
  by (simp split: option.splits GoValue.splits)

lemma Priority_priority_step:
  "Priority r = Priority r' \<Longrightarrow>
   Priority (YAMLParser_priority L r data) = Priority (YAMLParser_priority L r' data)"
  by (simp add: YAMLParser_priority_def split: option.splits GoValue.splits sum.splits)

lemma extracted_priority_eq:
  "YAMLParser_extracted_priority L data = Some (Priority (YAMLParser_priority L CommentData_zero data))"
  unfolding YAMLParser_extracted_priority_def YAMLParser_convertMapToCommentData_def Let_def
  by (simp add: Priority_deprecated_step
      Priority_priority_step[where r'=CommentData_zero, OF trans[OF Priority_tags_step]])

lemma takeWhile_all: "list_all P xs \<Longrightarrow> takeWhile P xs = xs"
  by (induction xs) auto

lemma digit_not_point: "list_all is_digit xs \<Longrightarrow> 0x2E \<notin> set xs"
  by (induction xs) (auto simp: is_digit_def)

lemma Sscanf_decimal:
  assumes "decimal_integer t = Some n" "- (2 ^ 63) \<le> n" "n < 2 ^ 63"
  shows "fmt_Sscanf_d t = Inr n \<and> 0x2E \<notin> set t \<and> t \<noteq> []"
proof -
  obtain c cs where t: "t = c # cs" using assms(1) by (cases t) (auto simp: decimal_integer_def)
  show ?thesis
  proof (cases "c = 0x2B \<or> c = 0x2D")
    case True
    then have b: "cs \<noteq> []" "list_all is_digit cs"
      and n: "n = (if c = 0x2D then - decimal_value cs else decimal_value cs)"
      using assms(1) unfolding t decimal_integer_def
      by (auto simp: Let_def split: if_splits)
    have p: "0x2E \<notin> set cs" using b(2) by (rule digit_not_point)
    show ?thesis
      using True b n p assms(2,3) unfolding fmt_Sscanf_d_def t
      by (auto simp: Let_def takeWhile_all)
  next
    case False
    then have b: "list_all is_digit (c # cs)" and n: "n = decimal_value (c # cs)"
      using assms(1) unfolding t decimal_integer_def
      by (auto simp: Let_def split: if_splits)
    have p: "0x2E \<notin> set (c # cs)" using b by (rule digit_not_point)
    have tw: "takeWhile is_digit (c # cs) = c # cs" using b by (rule takeWhile_all)
    show ?thesis
      using False n p assms(2,3) unfolding fmt_Sscanf_d_def t
      by (simp add: Let_def tw del: takeWhile.simps)
  qed
qed

lemma parseInt_decimal:
  assumes "decimal_integer (strings_TrimSpace s) = Some n" "- (2 ^ 63) \<le> n" "n < 2 ^ 63"
  shows "parseIntFromString s = Inr n"
  using Sscanf_decimal[OF assms]
  by (simp add: parseIntFromString_def strings_Contains1_def Let_def)

lemma Sscanf_rejects: "\<not> starts_with_integer t \<Longrightarrow> \<exists>err. fmt_Sscanf_d t = Inl err"
  unfolding fmt_Sscanf_d_def starts_with_integer_def
  by (cases t) (auto simp: Let_def split: list.splits if_splits)

lemma parseInt_rejects:
  assumes "strings_TrimSpace s = [] \<or> 0x2E \<in> set (strings_TrimSpace s) \<or>
           \<not> starts_with_integer (strings_TrimSpace s)"
  shows "\<exists>err. parseIntFromString s = Inl err"
proof (cases "strings_TrimSpace s = [] \<or> 0x2E \<in> set (strings_TrimSpace s)")
  case True
  then show ?thesis
    by (auto simp: parseIntFromString_def strings_Contains1_def Let_def)
next
  case False
  then have "\<not> starts_with_integer (strings_TrimSpace s)" using assms by blast
  from Sscanf_rejects[OF this] obtain err where "fmt_Sscanf_d (strings_TrimSpace s) = Inl err" ..
  then show ?thesis using False
    by (simp add: parseIntFromString_def strings_Contains1_def Let_def)
qed

lemma trunc_five_halves: "int_of_float64 L (Finite (5 / 2)) = 2"
proof -
  have "truncate_toward_zero (5 / 2) = 2" unfolding truncate_toward_zero_def by code_simp
  then show ?thesis by (simp add: int_of_float64_def)
qed

lemma parseInt_12abc: "parseIntFromString (str ''12abc'') = Inr 12"
  by (simp add: parseIntFromString_def fmt_Sscanf_d_def strings_Contains1_def Let_def eval_defs
      is_digit_def decimal_value_def)

text \<open>
  What the priority switch conforms to: an integer is taken as it is; a string
  that, trimmed, is a base-10 integer in the range of \<open>int\<close> is converted; a
  string that, trimmed, is empty, holds a decimal point or does not begin with
  an integer is ignored, and so is a value of any other type or a missing key.
  A floating-point number is converted by \<open>int(v)\<close>, with or without a
  fraction.
\<close>

lemma YAMLParser_priority_cases:
  "(map_of data (str ''priority'') = Some (VInt v) \<longrightarrow>
      YAMLParser_extracted_priority L data = Some v) \<and>
   (map_of data (str ''priority'') = Some (VFloat x) \<longrightarrow>
      YAMLParser_extracted_priority L data = Some (int_of_float64 L x)) \<and>
   (map_of data (str ''priority'') = Some (VString s) \<and>
    decimal_integer (strings_TrimSpace s) = Some n \<and> - (2 ^ 63) \<le> n \<and> n < 2 ^ 63 \<longrightarrow>
      YAMLParser_extracted_priority L data = Some n) \<and>
   (map_of data (str ''priority'') = Some (VString s) \<and>
    (strings_TrimSpace s = [] \<or> 0x2E \<in> set (strings_TrimSpace s) \<or>
     \<not> starts_with_integer (strings_TrimSpace s)) \<longrightarrow>
      YAMLParser_extracted_priority L data = Some 0) \<and>
   ((\<forall>v. map_of data (str ''priority'') \<noteq> Some (VInt v)) \<and>
    (\<forall>x. map_of data (str ''priority'') \<noteq> Some (VFloat x)) \<and>
    (\<forall>s. map_of data (str ''priority'') \<noteq> Some (VString s)) \<longrightarrow>
      YAMLParser_extracted_priority L data = Some 0)"
proof -
  have a: "YAMLParser_extracted_priority L data = Some n"
    if "map_of data (str ''priority'') = Some (VString s)"
       "decimal_integer (strings_TrimSpace s) = Some n" "- (2 ^ 63) \<le> n" "n < 2 ^ 63"
    using that(1) parseInt_decimal[OF that(2,3,4)]
    by (simp add: extracted_priority_eq YAMLParser_priority_def)
  have b: "YAMLParser_extracted_priority L data = Some 0"
    if "map_of data (str ''priority'') = Some (VString s)"
       "strings_TrimSpace s = [] \<or> 0x2E \<in> set (strings_TrimSpace s) \<or>
        \<not> starts_with_integer (strings_TrimSpace s)"
    using that(1) parseInt_rejects[OF that(2)]
    by (auto simp: extracted_priority_eq YAMLParser_priority_def CommentData_zero_def)
  have c: "YAMLParser_extracted_priority L data = Some 0"
    if "\<forall>v. map_of data (str ''priority'') \<noteq> Some (VInt v)"
       "\<forall>x. map_of data (str ''priority'') \<noteq> Some (VFloat x)"
       "\<forall>s. map_of data (str ''priority'') \<noteq> Some (VString s)"
    using that
    by (auto simp: extracted_priority_eq YAMLParser_priority_def CommentData_zero_def
        split: option.splits GoValue.splits)
  have d: "map_of data (str ''priority'') = Some (VInt v) \<longrightarrow>
      YAMLParser_extracted_priority L data = Some v"
    by (simp add: extracted_priority_eq YAMLParser_priority_def)
  have e: "map_of data (str ''priority'') = Some (VFloat x) \<longrightarrow>
      YAMLParser_extracted_priority L data = Some (int_of_float64 L x)"
    by (simp add: extracted_priority_eq YAMLParser_priority_def)
  show ?thesis using a b c d e by blast
qed

text \<open>
  C8, at two concrete inputs, for every behaviour of the libraries.  For the
  mapping \<open>priority: 2.5\<close> the priority should stay 0: a fractional number
  is not an integer, and the string \<open>"2.5"\<close> is refused for its decimal
  point; the \<open>float64\<close> case stores \<open>int(2.5)\<close>, which is 2.  For the
  mapping \<open>priority: "12abc"\<close> the priority should stay 0: the string is
  not an integer, and \<open>parseIntFromString\<close> means to refuse a string that
  is not read to its end; \<open>fmt.Sscanf\<close> reads the digits and stops, its
  count is 1, and the priority is 12.
\<close>

theorem YAML_priority_extraction:
  "YAMLParser_extracted_priority L [(str ''priority'', VFloat (Finite (5 / 2)))] = Some 2 \<and>
   YAMLParser_extracted_priority L [(str ''priority'', VString (str ''12abc''))] = Some 12"
  by (simp add: extracted_priority_eq YAMLParser_priority_def trunc_five_halves parseInt_12abc)

section \<open>Strict and lenient processing\<close>

lemma ParseWithFallback_loop_cases:
  "(\<exists>r. ParseWithFallback_loop L lastError ps comment delimiter = (Some r, None)) \<or>
   (\<exists>e. ParseWithFallback_loop L lastError ps comment delimiter = (None, Some e))"
proof (induction ps arbitrary: lastError)
  case Nil
  then show ?case by (cases lastError) auto
next
  case (Cons p ps)
  obtain res err where pc: "ParseComment L p comment delimiter = (res, err)"
    by (cases "ParseComment L p comment delimiter")
  show ?case using Cons.IH[of lastError] Cons.IH[of err] pc
    by (cases res; cases err) auto
qed

lemma ParseWithFallback_cases:
  "(\<exists>r. ParseWithFallback L r0 comment delimiter = (Some r, None)) \<or>
   (\<exists>e. ParseWithFallback L r0 comment delimiter = (None, Some e))"
  using ParseWithFallback_loop_cases[of L None "parsers r0" comment delimiter]
  by (auto simp: ParseWithFallback_def)

lemma sanitizeString_empty: "sanitizeString L v [] = []"
  by (simp add: sanitizeString_def)

lemma Sanitize_empty_record:
  "Sanitize L v keys (Some (CommentData_zero\<lparr>Source := c\<rparr>)) = Some (CommentData_zero\<lparr>Source := c\<rparr>)"
  by (simp add: Sanitize_def Clone_def CommentData_zero_def sanitizeString_empty)

lemma Validate_empty_record:
  "Validate L v keys (Some (CommentData_zero\<lparr>Source := c\<rparr>)) = None"
  by (simp add: Validate_def CommentData_zero_def validateLogicalName_def validateDescription_def
      validateTags_def validateMetadata_def)

lemma Sanitize_Some: "\<exists>r. Sanitize L v keys (Some d) = Some r"
  by (simp add: Sanitize_def Let_def)

lemma ValidateAndSanitize_empty_record:
  "ValidateAndSanitize L v k1 k2 (Some (CommentData_zero\<lparr>Source := c\<rparr>)) =
     (Some (CommentData_zero\<lparr>Source := c\<rparr>), None)"
  by (simp add: ValidateAndSanitize_def Sanitize_empty_record Validate_empty_record)

text \<open>Validation of the empty record: the call returns it, whatever the configuration.\<close>

lemma validation_of_empty_record:
  assumes "ProcessComment L p timerFirst comment delimiter objectType =
             (Some (CommentData_zero\<lparr>Source := c\<rparr>), None)"
  shows "ProcessCommentWithValidation L p timerFirst orders comment delimiter objectType =
             (Some (CommentData_zero\<lparr>Source := c\<rparr>), None)"
  unfolding ProcessCommentWithValidation_def assms
  by (simp add: ValidateAndSanitize_empty_record Validate_empty_record Sanitize_empty_record
      split: option.splits)

lemma ValidateAndSanitize_cases:
  "(\<exists>r. ValidateAndSanitize L v k1 k2 (Some d) = (Some r, None)) \<or>
   (\<exists>e. ValidateAndSanitize L v k1 k2 (Some d) = (None, Some e))"
  using Sanitize_Some[of L v k1 d]
  by (auto simp: ValidateAndSanitize_def Let_def split: option.splits)

lemma processCommentInternal_failed:
  "ParseWithFallback L (registry p) comment delimiter = (None, Some e) \<Longrightarrow>
   processCommentInternal L p comment delimiter objectType =
     (if StrictMode (config p)
      then (None, Some (Errorf (str ''failed to parse comment: %w'') [] (Some e)))
      else (Some (CommentData_zero\<lparr>Source := comment\<rparr>), None))"
  by (simp add: processCommentInternal_def)

lemma processCommentInternal_parsed:
  "ParseWithFallback L (registry p) comment delimiter = (Some r, None) \<Longrightarrow>
   processCommentInternal L p comment delimiter objectType =
     (Some (r\<lparr>Metadata := Some ((entries (Metadata r))(str ''object_type'' \<mapsto> objectType))\<rparr>), None)"
  by (simp add: processCommentInternal_def)

lemma error_formats_differ:
  "str ''failed to parse comment: %w'' \<noteq> str ''validation failed: %w''"
  by (simp add: str_def)

lemma failure_kinds:
  "parse_failure (Errorf (str ''failed to parse comment: %w'') [] (Some e))"
  "\<not> validation_failure (Errorf (str ''failed to parse comment: %w'') [] (Some e))"
  "validation_failure (Errorf (str ''validation failed: %w'') [] (Some e))"
  "\<not> parse_failure (Errorf (str ''validation failed: %w'') [] (Some e))"
  "\<not> parse_failure (Errorf f args None)" "\<not> validation_failure (Errorf f args None)"
  using error_formats_differ by simp_all

text \<open>
  C2, amended.  Take a processor, a comment, a delimiter and an object type.
  If a call of \<open>ProcessCommentWithValidation\<close> with \<open>StrictMode\<close> true
  returns a parse error or a validation error, then a call with the same
  arguments and \<open>StrictMode\<close> false, whatever the orders in which it visits
  the metadata keys, does as follows.  When it receives the result before the
  timer, it returns a record and no error: after a parse failure the empty
  record (with the comment as \<open>Source\<close>); after a validation failure the
  sanitized record when sanitization is enabled, else the record as it was
  before validation.  When it receives the timer first, it returns the timeout
  error.
\<close>

theorem strict_error_lenient_record:
  fixes p :: EnhancedCommentProcessor
  defines "strict \<equiv> p\<lparr>config := (config p)\<lparr>StrictMode := True\<rparr>\<rparr>"
  defines "lenient \<equiv> p\<lparr>config := (config p)\<lparr>StrictMode := False\<rparr>\<rparr>"
  assumes err: "ProcessCommentWithValidation L strict timerFirst orders comment delimiter objectType =
                  (res, Some err)"
      and kind: "parse_failure err \<or> validation_failure err"
  shows "(\<exists>r. ProcessCommentWithValidation L lenient False orders' comment delimiter objectType =
               (Some r, None)) \<and>
    (parse_failure err \<longrightarrow>
       ProcessCommentWithValidation L lenient False orders' comment delimiter objectType =
         (Some (CommentData_zero\<lparr>Source := comment\<rparr>), None)) \<and>
    (validation_failure err \<longrightarrow>
       (\<exists>v r0. validator p = Some v \<and>
          ProcessComment L lenient False comment delimiter objectType = (Some r0, None) \<and>
          (ProcessCommentWithValidation L lenient False orders' comment delimiter objectType =
             ((if EnableSanitization (config p)
               then Sanitize L v (sanitize_keys orders') (Some r0) else Some r0), None) \<or>
           ProcessCommentWithValidation L lenient False orders' comment delimiter objectType =
             ((if EnableSanitization (config p)
               then Sanitize L v (resanitize_keys orders') (Some r0) else Some r0), None)))) \<and>
    ProcessCommentWithValidation L lenient True orders' comment delimiter objectType =
      (None, Some (Errorf (str ''comment processing timeout after %d ms'')
                     [AInt (ProcessingTimeout (config p))] None))"
proof (cases "comment = []")
  case True
  have "ProcessComment L strict timerFirst comment delimiter objectType =
          (Some (CommentData_zero\<lparr>Source := comment\<rparr>), None)"
    by (simp add: ProcessComment_def True)
  from validation_of_empty_record[OF this, of orders] err show ?thesis by simp
next
  case False
  define d where "d = (if delimiter = [] then DefaultDelimiter (config p) else delimiter)"
  have tf: "\<not> timerFirst"
  proof
    assume "timerFirst"
    then have "ProcessComment L strict timerFirst comment delimiter objectType =
        (None, Some (Errorf (str ''comment processing timeout after %d ms'')
                       [AInt (ProcessingTimeout (config strict))] None))"
      by (simp add: ProcessComment_def False)
    then have "err = Errorf (str ''comment processing timeout after %d ms'')
                       [AInt (ProcessingTimeout (config strict))] None"
      using err by (simp add: ProcessCommentWithValidation_def)
    then show False using kind by (simp add: failure_kinds)
  qed
  have tmo: "ProcessCommentWithValidation L lenient True orders' comment delimiter objectType =
      (None, Some (Errorf (str ''comment processing timeout after %d ms'')
                     [AInt (ProcessingTimeout (config p))] None))"
    by (simp add: ProcessCommentWithValidation_def ProcessComment_def False lenient_def)
  have pcs: "ProcessComment L strict timerFirst comment delimiter objectType =
               processCommentInternal L strict comment d objectType"
    and pcl: "ProcessComment L lenient False comment delimiter objectType =
               processCommentInternal L lenient comment d objectType"
    using tf by (simp_all add: ProcessComment_def False d_def strict_def lenient_def)
  have reg: "registry strict = registry p" "registry lenient = registry p"
    and cfg: "StrictMode (config strict)" "\<not> StrictMode (config lenient)"
      "EnableValidation (config strict) = EnableValidation (config p)"
      "EnableValidation (config lenient) = EnableValidation (config p)"
      "EnableSanitization (config strict) = EnableSanitization (config p)"
      "EnableSanitization (config lenient) = EnableSanitization (config p)"
    and val: "validator strict = validator p" "validator lenient = validator p"
    by (simp_all add: strict_def lenient_def)
  from ParseWithFallback_cases[of L "registry p" comment d]
  show ?thesis
  proof (elim disjE exE)
    fix e assume pf: "ParseWithFallback L (registry p) comment d = (None, Some e)"
    have s: "ProcessComment L strict timerFirst comment delimiter objectType =
               (None, Some (Errorf (str ''failed to parse comment: %w'') [] (Some e)))"
      using processCommentInternal_failed[of L strict comment d e objectType] pf
      by (simp add: pcs reg cfg)
    have l: "ProcessComment L lenient False comment delimiter objectType =
               (Some (CommentData_zero\<lparr>Source := comment\<rparr>), None)"
      using processCommentInternal_failed[of L lenient comment d e objectType] pf
      by (simp add: pcl reg cfg)
    have e: "err = Errorf (str ''failed to parse comment: %w'') [] (Some e)"
      using err by (simp add: ProcessCommentWithValidation_def s)
    show ?thesis
      using validation_of_empty_record[OF l, of orders'] tmo
      by (simp add: e error_formats_differ)
  next
    fix r assume ok: "ParseWithFallback L (registry p) comment d = (Some r, None)"
    define r0 where
      "r0 = r\<lparr>Metadata := Some ((entries (Metadata r))(str ''object_type'' \<mapsto> objectType))\<rparr>"
    have s: "ProcessComment L strict timerFirst comment delimiter objectType = (Some r0, None)"
      using processCommentInternal_parsed[of L strict comment d r objectType] ok
      by (simp add: pcs reg r0_def)
    have l: "ProcessComment L lenient False comment delimiter objectType = (Some r0, None)"
      using processCommentInternal_parsed[of L lenient comment d r objectType] ok
      by (simp add: pcl reg r0_def)
    from err obtain v where v: "validator p = Some v" and ev: "EnableValidation (config p)"
      by (cases "validator p")
         (auto simp: ProcessCommentWithValidation_def s val cfg split: if_splits)
    show ?thesis
    proof (cases "EnableSanitization (config p)")
      case True
      from ValidateAndSanitize_cases[of L v "sanitize_keys orders" "validate_keys orders" r0]
      obtain e where vs: "ValidateAndSanitize L v (sanitize_keys orders) (validate_keys orders) (Some r0)
                            = (None, Some e)"
        using err by (auto simp: ProcessCommentWithValidation_def s val cfg v ev True)
      have e: "err = Errorf (str ''validation failed: %w'') [] (Some e)"
        using err by (simp add: ProcessCommentWithValidation_def s val cfg v ev True vs)
      have res: "ProcessCommentWithValidation L lenient False orders' comment delimiter objectType =
                   (Sanitize L v (sanitize_keys orders') (Some r0), None) \<or>
                 ProcessCommentWithValidation L lenient False orders' comment delimiter objectType =
                   (Sanitize L v (resanitize_keys orders') (Some r0), None)"
        by (cases "Validate L v (validate_keys orders') (Sanitize L v (sanitize_keys orders') (Some r0))")
           (simp_all add: ProcessCommentWithValidation_def l val cfg v ev True ValidateAndSanitize_def)
      have ex: "\<exists>r. ProcessCommentWithValidation L lenient False orders' comment delimiter objectType =
                   (Some r, None)"
        using res Sanitize_Some[of L v "resanitize_keys orders'" r0]
          Sanitize_Some[of L v "sanitize_keys orders'" r0] by auto
      have vf: "\<exists>v r0. validator p = Some v \<and>
          ProcessComment L lenient False comment delimiter objectType = (Some r0, None) \<and>
          (ProcessCommentWithValidation L lenient False orders' comment delimiter objectType =
             ((if EnableSanitization (config p)
               then Sanitize L v (sanitize_keys orders') (Some r0) else Some r0), None) \<or>
           ProcessCommentWithValidation L lenient False orders' comment delimiter objectType =
             ((if EnableSanitization (config p)
               then Sanitize L v (resanitize_keys orders') (Some r0) else Some r0), None))"
        using res l v True by auto
      show ?thesis using ex vf tmo by (simp add: e error_formats_differ[symmetric])
    next
      case False
      obtain e where vs: "Validate L v (validate_keys orders) (Some r0) = Some e"
        using err by (cases "Validate L v (validate_keys orders) (Some r0)")
          (auto simp: ProcessCommentWithValidation_def s val cfg v ev False)
      have e: "err = Errorf (str ''validation failed: %w'') [] (Some e)"
        using err by (simp add: ProcessCommentWithValidation_def s val cfg v ev False vs)
      have res: "ProcessCommentWithValidation L lenient False orders' comment delimiter objectType =
              (Some r0, None)"
        by (simp add: ProcessCommentWithValidation_def l val cfg v ev False split: option.splits)
      have vf: "\<exists>v r0. validator p = Some v \<and>
          ProcessComment L lenient False comment delimiter objectType = (Some r0, None) \<and>
          (ProcessCommentWithValidation L lenient False orders' comment delimiter objectType =
             ((if EnableSanitization (config p)
               then Sanitize L v (sanitize_keys orders') (Some r0) else Some r0), None) \<or>
           ProcessCommentWithValidation L lenient False orders' comment delimiter objectType =
             ((if EnableSanitization (config p)
               then Sanitize L v (resanitize_keys orders') (Some r0) else Some r0), None))"
        using res l v False by auto
      show ?thesis using res vf tmo by (simp add: e error_formats_differ[symmetric])
    qed
  qed
qed

lemma legacy_ab_c:
  "LegacyParser_ParseComment NewLegacyParser (str ''ab|c'') (str ''|'') =
     (Some (CommentData_zero\<lparr>LogicalName := str ''ab'', Description := str ''c'',
              Source := str ''ab|c''\<rparr>), None)"
  by (simp add: LegacyParser_ParseComment_def eval_defs normalizeComment_def
      normalizeWhitespace_def splitWithEscape_def)

lemma json_cannot_ab_c: "\<not> JSONParser_CanParse L NewJSONParser (str ''ab|c'')"
  by (simp add: JSONParser_CanParse_def NewJSONParser_def eval_defs)

lemma fallback_ab_c:
  "ParseWithFallback L \<lparr>parsers = [JSON NewJSONParser, Legacy NewLegacyParser]\<rparr> (str ''ab|c'') (str ''|'') =
     (Some (CommentData_zero\<lparr>LogicalName := str ''ab'', Description := str ''c'',
              Source := str ''ab|c''\<rparr>), None)"
proof -
  have ne: "str ''ab|c'' \<noteq> []" by (simp add: str_def)
  show ?thesis
    by (simp add: ParseWithFallback_def ne json_cannot_ab_c legacy_ab_c LegacyParser_CanParse_def
        CommentData_zero_def)
qed

lemma registry_default_eq:
  "registry NewEnhancedCommentProcessor = \<lparr>parsers = [JSON NewJSONParser, Legacy NewLegacyParser]\<rparr>"
  by (simp add: NewEnhancedCommentProcessor_def registerDefaultParsers_def RegisterParser_def
      NewDefaultParserRegistry_def NewJSONParser_def NewLegacyParser_def)

lemma short_name_ProcessComment:
  "ProcessComment L (short_name_processor\<lparr>config := (config short_name_processor)\<lparr>StrictMode := b\<rparr>\<rparr>)
     False (str ''ab|c'') (str ''|'') ObjectTypeColumn = (Some ab_c_record, None)"
proof -
  have ne: "str ''ab|c'' \<noteq> []" "str ''|'' \<noteq> []" by (simp_all add: str_def)
  have reg: "registry (short_name_processor\<lparr>config := (config short_name_processor)\<lparr>StrictMode := b\<rparr>\<rparr>)
             = \<lparr>parsers = [JSON NewJSONParser, Legacy NewLegacyParser]\<rparr>"
    by (simp add: short_name_processor_def SetValidator_def registry_default_eq)
  show ?thesis
    by (simp add: ProcessComment_def ne processCommentInternal_def reg fallback_ab_c
        ab_c_record_def CommentData_zero_def ObjectTypeColumn_def)
qed

lemma short_name_sanitizeString:
  "sanitizeString sample_lib short_name_validator (str ''ab'') = str ''ab''"
  "sanitizeString sample_lib short_name_validator (str ''c'') = str ''c''"
  "sanitizeString sample_lib short_name_validator (str ''object_type'') = str ''object_type''"
  "sanitizeString sample_lib short_name_validator (str ''column'') = str ''column''"
  by (simp_all add: sanitizeString_def short_name_validator_def NewDefaultCommentValidatorWithConfig_def
      PermissiveValidationConfig_def removeControlChars_def unicode_IsPrint_def regexp_space_def
      eval_defs)

lemma short_name_Sanitize:
  "Sanitize sample_lib short_name_validator [str ''object_type''] (Some ab_c_record) = Some ab_c_record"
proof -
  have ne: "[str ''object_type'' \<mapsto> str ''column''] \<noteq> Map.empty" by simp
  have s: "str ''object_type'' \<noteq> []" "str ''column'' \<noteq> []" by (simp_all add: str_def)
  show ?thesis
    by (simp add: Sanitize_def Clone_def ab_c_record_def short_name_sanitizeString s)
qed

lemma sprintf_max_1:
  "fmt_Sprintf sample_lib (str ''logical name too long (max: %d)'') [AInt 1] =
     str ''logical name too long (max: 1)''"
  by (simp add: sample_lib_def str_def strconv_Itoa_def nat_digits.simps)

lemma short_name_Validate:
  "Validate sample_lib short_name_validator keys (Some ab_c_record) =
     Some (CommentValidationError (str ''logical_name'') (str ''ab'')
             (str ''logical name too long (max: 1)'') (Some ErrLogicalNameTooLong))"
proof -
  have ne: "str ''ab'' \<noteq> []" "length (str ''ab'') = 2" by (simp_all add: str_def)
  have c: "MaxLogicalNameLength (vconfig short_name_validator) = 1"
    by (simp add: short_name_validator_def NewDefaultCommentValidatorWithConfig_def)
  have v: "validateLogicalName sample_lib short_name_validator (str ''ab'') =
     Some (CommentValidationError (str ''logical_name'') (str ''ab'')
             (str ''logical name too long (max: 1)'') (Some ErrLogicalNameTooLong))"
    by (simp add: validateLogicalName_def ne c NewCommentValidationError_def sprintf_max_1)
  show ?thesis by (simp add: Validate_def ab_c_record_def v)
qed

lemma json_only_registry:
  "registry (json_only_processor\<lparr>config := (config json_only_processor)\<lparr>StrictMode := b\<rparr>\<rparr>) =
     \<lparr>parsers = [JSON (NewJSONParserWithLimits 0 8192)]\<rparr>"
  by (simp add: json_only_processor_def RegisterParser_def Clear_def registry_default_eq)

lemma json_only_fallback:
  "ParseWithFallback sample_lib \<lparr>parsers = [JSON (NewJSONParserWithLimits 0 8192)]\<rparr> (str ''{}'') (str ''|'') =
     (None, Some (Errorf (str ''all parsers failed to parse comment: %w'') []
        (Some (CommentParseError (str ''json'') (str ''{}'') (str ''JSON structure too deep'')
                 (Some ErrJSONTooDeep)))))"
proof -
  have ne: "str ''{}'' \<noteq> []" by (simp add: str_def)
  show ?thesis
    by (simp add: ParseWithFallback_def ne json_can_empty_object json_parse_empty_object)
qed

lemma json_only_strict:
  "ProcessCommentWithValidation sample_lib
     (json_only_processor\<lparr>config := (config json_only_processor)\<lparr>StrictMode := True\<rparr>\<rparr>)
     False object_type_first (str ''{}'') (str ''|'') ObjectTypeTable =
   (None, Some (Errorf (str ''failed to parse comment: %w'') []
      (Some (Errorf (str ''all parsers failed to parse comment: %w'') []
        (Some (CommentParseError (str ''json'') (str ''{}'') (str ''JSON structure too deep'')
                 (Some ErrJSONTooDeep)))))))"
proof -
  have ne: "str ''{}'' \<noteq> []" "str ''|'' \<noteq> []" by (simp_all add: str_def)
  show ?thesis
    by (simp add: ProcessCommentWithValidation_def ProcessComment_def ne processCommentInternal_def
        json_only_registry json_only_fallback)
qed


lemma short_name_config:
  "validator short_name_processor = Some short_name_validator"
  "EnableValidation (config short_name_processor)"
  "EnableSanitization (config short_name_processor)"
  by (simp_all add: short_name_processor_def SetValidator_def NewEnhancedCommentProcessor_def
      registerDefaultParsers_def DefaultProcessingConfig_def Let_def)

lemma object_type_first_keys:
  "sanitize_keys object_type_first = [str ''object_type'']"
  "validate_keys object_type_first = [str ''object_type'']"
  "resanitize_keys object_type_first = [str ''object_type'']"
  by (simp_all add: object_type_first_def)

lemma short_name_strict:
  "ProcessCommentWithValidation sample_lib
     (short_name_processor\<lparr>config := (config short_name_processor)\<lparr>StrictMode := True\<rparr>\<rparr>)
     False object_type_first (str ''ab|c'') (str ''|'') ObjectTypeColumn =
   (None, Some (Errorf (str ''validation failed: %w'') []
      (Some (CommentValidationError (str ''logical_name'') (str ''ab'')
               (str ''logical name too long (max: 1)'') (Some ErrLogicalNameTooLong)))))"
  by (simp add: ProcessCommentWithValidation_def short_name_ProcessComment short_name_config
      ValidateAndSanitize_def object_type_first_keys short_name_Sanitize short_name_Validate)

lemma short_name_lenient:
  "ProcessCommentWithValidation sample_lib
     (short_name_processor\<lparr>config := (config short_name_processor)\<lparr>StrictMode := False\<rparr>\<rparr>)
     False object_type_first (str ''ab|c'') (str ''|'') ObjectTypeColumn = (Some ab_c_record, None)"
  by (simp add: ProcessCommentWithValidation_def short_name_ProcessComment short_name_config
      ValidateAndSanitize_def object_type_first_keys short_name_Sanitize short_name_Validate)

text \<open>
  C2, as stated, at a concrete input.  The registry holds only a JSON parser
  of maximal depth 0 and the comment is \<open>{}\<close>.  In strict mode the call
  returns a parse error.  The same call in lenient mode, when the
  \<open>select\<close> statement of \<open>ProcessComment\<close> receives the timer first,
  returns the timeout error and no record: the timeout is tested before, and
  independently of, \<open>StrictMode\<close>.
\<close>

theorem strict_error_lenient_timeout:
  "ProcessCommentWithValidation sample_lib
     (json_only_processor\<lparr>config := (config json_only_processor)\<lparr>StrictMode := True\<rparr>\<rparr>)
     False object_type_first (str ''{}'') (str ''|'') ObjectTypeTable =
   (None, Some (Errorf (str ''failed to parse comment: %w'') []
      (Some (Errorf (str ''all parsers failed to parse comment: %w'') []
        (Some (CommentParseError (str ''json'') (str ''{}'') (str ''JSON structure too deep'')
                 (Some ErrJSONTooDeep))))))) \<and>
   ProcessCommentWithValidation sample_lib
     (json_only_processor\<lparr>config := (config json_only_processor)\<lparr>StrictMode := False\<rparr>\<rparr>)
     True object_type_first (str ''{}'') (str ''|'') ObjectTypeTable =
   (None, Some (Errorf (str ''comment processing timeout after %d ms'') [AInt 1000] None))"
proof -
  have ne: "str ''{}'' \<noteq> []" "str ''|'' \<noteq> []" by (simp_all add: str_def)
  have t: "ProcessingTimeout (config json_only_processor) = 1000"
    by (simp add: json_only_processor_def NewEnhancedCommentProcessor_def
        registerDefaultParsers_def DefaultProcessingConfig_def Let_def)
  show ?thesis
    by (simp add: ProcessCommentWithValidation_def ProcessComment_def ne processCommentInternal_def
        json_only_registry json_only_fallback t)
qed

theorem strict_error_lenient_record_witness:
  "ProcessCommentWithValidation sample_lib
     (json_only_processor\<lparr>config := (config json_only_processor)\<lparr>StrictMode := True\<rparr>\<rparr>)
     False object_type_first (str ''{}'') (str ''|'') ObjectTypeTable =
   (None, Some (Errorf (str ''failed to parse comment: %w'') []
      (Some (Errorf (str ''all parsers failed to parse comment: %w'') []
        (Some (CommentParseError (str ''json'') (str ''{}'') (str ''JSON structure too deep'')
                 (Some ErrJSONTooDeep))))))) \<and>
   ProcessCommentWithValidation sample_lib
     (json_only_processor\<lparr>config := (config json_only_processor)\<lparr>StrictMode := False\<rparr>\<rparr>)
     False spaced_key_last (str ''{}'') (str ''|'') ObjectTypeTable =
   (Some (CommentData_zero\<lparr>Source := str ''{}''\<rparr>), None) \<and>
   ProcessCommentWithValidation sample_lib
     (short_name_processor\<lparr>config := (config short_name_processor)\<lparr>StrictMode := True\<rparr>\<rparr>)
     False object_type_first (str ''ab|c'') (str ''|'') ObjectTypeColumn =
   (None, Some (Errorf (str ''validation failed: %w'') []
      (Some (CommentValidationError (str ''logical_name'') (str ''ab'')
               (str ''logical name too long (max: 1)'') (Some ErrLogicalNameTooLong))))) \<and>
   EnableSanitization (config short_name_processor) \<and>
   ProcessCommentWithValidation sample_lib
     (short_name_processor\<lparr>config := (config short_name_processor)\<lparr>StrictMode := False\<rparr>\<rparr>)
     False object_type_first (str ''ab|c'') (str ''|'') ObjectTypeColumn =
   (Sanitize sample_lib short_name_validator (resanitize_keys object_type_first) (Some ab_c_record), None) \<and>
   Sanitize sample_lib short_name_validator (resanitize_keys object_type_first) (Some ab_c_record) =
     Some ab_c_record \<and>
   ProcessCommentWithValidation sample_lib
     (short_name_processor\<lparr>config := (config short_name_processor)\<lparr>StrictMode := False\<rparr>\<rparr>)
     True object_type_first (str ''ab|c'') (str ''|'') ObjectTypeColumn =
   (None, Some (Errorf (str ''comment processing timeout after %d ms'') [AInt 1000] None))"
proof -
  have t: "ProcessingTimeout (config short_name_processor) = 1000"
    by (simp add: short_name_processor_def SetValidator_def NewEnhancedCommentProcessor_def
        registerDefaultParsers_def DefaultProcessingConfig_def Let_def)
  show ?thesis
    using strict_error_lenient_record[OF json_only_strict, where orders'=spaced_key_last]
      strict_error_lenient_record[OF short_name_strict, where orders'=object_type_first]
    by (simp add: json_only_strict short_name_strict short_name_config short_name_ProcessComment
        error_formats_differ error_formats_differ[symmetric] object_type_first_keys
        short_name_Sanitize short_name_lenient t)
qed

section \<open>The object type in the metadata\<close>
















section \<open>Sanitizing twice\<close>

lemma last_dropWhile: "dropWhile P xs \<noteq> [] \<Longrightarrow> last (dropWhile P xs) = last xs"
  by (induction xs) (auto split: if_splits)

lemma TrimSpace_ends:
  assumes "strings_TrimSpace s \<noteq> []"
  shows "\<not> unicode_IsSpace (hd (strings_TrimSpace s))" and "\<not> unicode_IsSpace (last (strings_TrimSpace s))"
proof -
  let ?d = "dropWhile unicode_IsSpace s"
  let ?e = "dropWhile unicode_IsSpace (rev ?d)"
  have e: "?e \<noteq> []" using assms by (simp add: strings_TrimSpace_def)
  have d: "?d \<noteq> []" using e by (metis dropWhile.simps(1) rev.simps(1))
  have "last (strings_TrimSpace s) = hd ?e" using e by (simp add: strings_TrimSpace_def last_rev)
  then show "\<not> unicode_IsSpace (last (strings_TrimSpace s))" using e hd_dropWhile[of unicode_IsSpace "rev ?d"] by simp
  have "hd (strings_TrimSpace s) = last ?e" using e by (simp add: strings_TrimSpace_def hd_rev)
  also have "\<dots> = last (rev ?d)" using e by (rule last_dropWhile)
  also have "\<dots> = hd ?d" using d by (simp add: last_rev)
  finally show "\<not> unicode_IsSpace (hd (strings_TrimSpace s))" using d hd_dropWhile[of unicode_IsSpace s] by simp
qed

lemma set_TrimSpace: "r \<in> set (strings_TrimSpace s) \<Longrightarrow> r \<in> set s"
  unfolding strings_TrimSpace_def by (auto dest!: set_dropWhileD)

lemma TrimSpace_fixed:
  assumes "xs \<noteq> []" "\<not> unicode_IsSpace (hd xs)" "\<not> unicode_IsSpace (last xs)"
  shows "strings_TrimSpace xs = xs"
proof -
  have a: "dropWhile unicode_IsSpace xs = xs" using assms(1,2) by (cases xs) auto
  have "rev xs \<noteq> []" "\<not> unicode_IsSpace (hd (rev xs))" using assms(1,3) by (simp_all add: hd_rev)
  then have b: "dropWhile unicode_IsSpace (rev xs) = rev xs" by (cases "rev xs") auto
  show ?thesis by (simp add: strings_TrimSpace_def a b)
qed

lemma regexp_space_IsSpace: "regexp_space r \<Longrightarrow> unicode_IsSpace r"
  by (auto simp: regexp_space_def unicode_IsSpace_def)

lemma replace_space_runs_idem: "replace_space_runs b (replace_space_runs b xs) = replace_space_runs b xs"
  by (induction xs arbitrary: b) (auto simp: regexp_space_def)

lemma replace_space_runs_hd:
  "xs \<noteq> [] \<Longrightarrow> \<not> regexp_space (hd xs) \<Longrightarrow>
   replace_space_runs b xs \<noteq> [] \<and> hd (replace_space_runs b xs) = hd xs"
  by (cases xs) auto

lemma replace_space_runs_last:
  "xs \<noteq> [] \<Longrightarrow> \<not> regexp_space (last xs) \<Longrightarrow>
   replace_space_runs b xs \<noteq> [] \<and> last (replace_space_runs b xs) = last xs"
  by (induction xs arbitrary: b) (auto split: if_splits)

lemma replace_space_runs_set:
  "r \<in> set (replace_space_runs b xs) \<Longrightarrow> r = 0x20 \<or> (r \<in> set xs \<and> \<not> regexp_space r)"
  by (induction xs arbitrary: b) (auto split: if_splits)

lemma html_EscapeString_plain: "list_all (\<lambda>r. \<not> html_special r) xs \<Longrightarrow> html_EscapeString xs = xs"
  by (induction xs) (auto simp: html_EscapeString_def html_escape_rune_def html_special_def)

lemma filter_last:
  "xs \<noteq> [] \<Longrightarrow> P (last xs) \<Longrightarrow> filter P xs \<noteq> [] \<and> last (filter P xs) = last xs"
  by (induction xs) (auto split: if_splits)

lemma filter_ends:
  assumes "xs \<noteq> []" "P (hd xs)" "P (last xs)"
  shows "filter P xs \<noteq> []" "hd (filter P xs) = hd xs" "last (filter P xs) = last xs"
proof -
  show "filter P xs \<noteq> []" "hd (filter P xs) = hd xs" using assms(1,2) by (cases xs; simp)+
  show "last (filter P xs) = last xs" using filter_last[of xs P] assms(1,3) by simp
qed

lemma sanitizeString_fixed:
  assumes ne: "o' \<noteq> []"
    and ends: "\<not> unicode_IsSpace (hd o')" "\<not> unicode_IsSpace (last o')"
    and kept: "\<forall>r \<in> set o'. unicode_IsPrint L r \<or> r = 0x09 \<or> r = 0x0A \<or> r = 0x0D"
    and plain: "EnableHTMLEscape (vconfig v) \<longrightarrow> list_all (\<lambda>r. \<not> html_special r) o'"
    and runs: "replace_space_runs False o' = o'"
  shows "sanitizeString L v o' = o'"
proof -
  have t: "strings_TrimSpace o' = o'" using ne ends by (rule TrimSpace_fixed)
  have c: "removeControlChars L o' = o'"
    unfolding removeControlChars_def by (rule filter_True) (use kept in blast)
  have h: "EnableHTMLEscape (vconfig v) \<Longrightarrow> html_EscapeString o' = o'"
    using plain by (simp add: html_EscapeString_plain)
  show ?thesis using ne h by (simp add: sanitizeString_def t c runs)
qed

lemma sanitizeString_blank:
  "s = [] \<or> strings_TrimSpace s = [] \<Longrightarrow> sanitizeString L v s = []"
  by (auto simp: sanitizeString_def removeControlChars_def html_EscapeString_def)

lemma sanitizeString_stable:
  assumes "sanitize_stable L v s"
  shows "sanitizeString L v (sanitizeString L v s) = sanitizeString L v s"
proof (cases "s = [] \<or> strings_TrimSpace s = []")
  case True
  then have "sanitizeString L v s = []" by (rule sanitizeString_blank)
  then show ?thesis by (simp add: sanitizeString_def)
next
  case False
  define keep where "keep = (\<lambda>r. unicode_IsPrint L r \<or> r = 0x09 \<or> r = 0x0A \<or> r = 0x0D)"
  define u where "u = removeControlChars L (strings_TrimSpace s)"
  define o' where "o' = replace_space_runs False u"
  have ut: "strings_TrimSpace u = u"
    and uplain: "EnableHTMLEscape (vconfig v) \<Longrightarrow> list_all (\<lambda>r. \<not> html_special r) u"
    using assms unfolding sanitize_stable_def Let_def u_def by blast+
  have ukeep: "keep r" if "r \<in> set u" for r
    using that by (simp add: u_def removeControlChars_def keep_def)
  have es: "EnableHTMLEscape (vconfig v) \<Longrightarrow> html_EscapeString u = u"
    using uplain by (simp add: html_EscapeString_plain)
  have sne: "s \<noteq> []" using False by simp
  have san: "sanitizeString L v s = o'"
    using es by (simp add: sanitizeString_def Let_def sne u_def[symmetric] o'_def)
  show ?thesis
  proof (cases "u = []")
    case True
    then have "o' = []" by (simp add: o'_def)
    then have "sanitizeString L v s = []" using san by simp
    then show ?thesis by (simp only: sanitizeString_empty)
  next
    case une: False
    have usp: "\<not> unicode_IsSpace (hd u)" "\<not> unicode_IsSpace (last u)"
      using TrimSpace_ends[of u] une by (simp_all add: ut)
    have nsp: "\<not> regexp_space (hd u)" "\<not> regexp_space (last u)"
      using usp regexp_space_IsSpace[of "hd u"] regexp_space_IsSpace[of "last u"] by auto
    have one: "o' \<noteq> []" and ohd: "hd o' = hd u" and ola: "last o' = last u"
      using replace_space_runs_hd[OF une nsp(1), of False]
        replace_space_runs_last[OF une nsp(2), of False]
      by (simp_all add: o'_def)
    have mem: "r = 0x20 \<or> r \<in> set u" if "r \<in> set o'" for r
      using that replace_space_runs_set[of r False u] unfolding o'_def by blast
    have p32: "unicode_IsPrint L 0x20" by (simp add: unicode_IsPrint_def)
    have okept: "\<forall>r \<in> set o'. unicode_IsPrint L r \<or> r = 0x09 \<or> r = 0x0A \<or> r = 0x0D"
    proof
      fix r assume "r \<in> set o'"
      from mem[OF this] show "unicode_IsPrint L r \<or> r = 0x09 \<or> r = 0x0A \<or> r = 0x0D"
      proof
        assume "r = 0x20" then show ?thesis using p32 by simp
      next
        assume "r \<in> set u" then have "keep r" by (rule ukeep)
        then show ?thesis by (simp add: keep_def)
      qed
    qed
    have n32: "\<not> html_special 0x20" by (simp add: html_special_def)
    have oplain: "EnableHTMLEscape (vconfig v) \<longrightarrow> list_all (\<lambda>r. \<not> html_special r) o'"
    proof
      assume e: "EnableHTMLEscape (vconfig v)"
      have "\<not> html_special r" if "r \<in> set o'" for r
        using mem[OF that] uplain[OF e] n32 by (auto simp: list_all_iff)
      then show "list_all (\<lambda>r. \<not> html_special r) o'" by (simp add: list_all_iff)
    qed
    have r1: "\<not> unicode_IsSpace (hd o')" "\<not> unicode_IsSpace (last o')"
      using usp by (simp_all add: ohd ola)
    have r2: "replace_space_runs False o' = o'" by (simp add: o'_def replace_space_runs_idem)
    have "sanitizeString L v o' = o'"
      using one r1 okept oplain r2 by (rule sanitizeString_fixed)
    then show ?thesis by (simp add: san)
  qed
qed

lemma sanitize_metadata_range:
  "sanitize_metadata L v M keys acc k' = Some v' \<Longrightarrow>
   acc k' = Some v' \<or>
   (\<exists>k val. M k = Some val \<and> k' = sanitizeString L v k \<and> v' = sanitizeString L v val \<and>
      k' \<noteq> [] \<and> v' \<noteq> [])"
proof (induction keys arbitrary: acc)
  case Nil
  then show ?case by simp
next
  case (Cons key keys)
  show ?case
  proof (cases "M key")
    case None
    then show ?thesis using Cons.IH[of acc] Cons.prems by simp
  next
    case (Some val)
    define acc' where "acc' = (if sanitizeString L v key \<noteq> [] \<and> sanitizeString L v val \<noteq> []
       then acc(sanitizeString L v key \<mapsto> sanitizeString L v val) else acc)"
    have "sanitize_metadata L v M keys acc' k' = Some v'"
      using Cons.prems Some by (simp add: Let_def acc'_def)
    from Cons.IH[OF this] show ?thesis
    proof
      assume a: "acc' k' = Some v'"
      show ?thesis
      proof (cases "acc k' = Some v'")
        case True then show ?thesis by simp
      next
        case False
        then have "k' = sanitizeString L v key \<and> v' = sanitizeString L v val \<and> k' \<noteq> [] \<and> v' \<noteq> []"
          using a by (auto simp: acc'_def split: if_splits)
        then show ?thesis using Some by blast
      qed
    next
      assume "\<exists>k val. M k = Some val \<and> k' = sanitizeString L v k \<and> v' = sanitizeString L v val \<and>
                k' \<noteq> [] \<and> v' \<noteq> []"
      then show ?thesis by blast
    qed
  qed
qed

lemma sanitize_metadata_fixed:
  assumes "\<forall>k val. M k = Some val \<longrightarrow>
             sanitizeString L v k = k \<and> sanitizeString L v val = val \<and> k \<noteq> [] \<and> val \<noteq> []"
  shows "sanitize_metadata L v M keys acc = acc ++ (M |` set keys)"
proof (induction keys arbitrary: acc)
  case Nil
  then show ?case by simp
next
  case (Cons key keys)
  show ?case
  proof (cases "M key")
    case None
    have "M |` set (key # keys) = M |` set keys"
      using None by (auto simp: restrict_map_def fun_eq_iff)
    then show ?thesis using None Cons.IH[of acc] by simp
  next
    case (Some val)
    have f: "sanitizeString L v key = key" "sanitizeString L v val = val" "key \<noteq> []" "val \<noteq> []"
      using assms Some by blast+
    have "sanitize_metadata L v M (key # keys) acc = sanitize_metadata L v M keys (acc(key \<mapsto> val))"
      using Some f by (simp add: Let_def)
    also have "\<dots> = acc(key \<mapsto> val) ++ (M |` set keys)"
      by (rule Cons.IH)
    also have "\<dots> = acc ++ (M |` set (key # keys))"
      using Some by (auto simp: restrict_map_def fun_eq_iff map_add_def split: option.splits)
    finally show ?thesis .
  qed
qed

lemma Sanitize_eq:
  "Sanitize L v keys (Some r) = Some \<lparr>
     LogicalName = sanitizeString L v (LogicalName r),
     Description = sanitizeString L v (Description r),
     Tags = (if elems (Tags r) = [] then None
             else Some (filter (\<lambda>t. t \<noteq> []) (map (sanitizeString L v) (elems (Tags r))))),
     Metadata = (if entries (Metadata r) = Map.empty then None
                 else Some (sanitize_metadata L v (entries (Metadata r)) keys Map.empty)),
     Priority = Priority r, Deprecated = Deprecated r, Source = Source r\<rparr>"
  by (simp add: Sanitize_def Clone_def Let_def)

lemma Clone_unchanged:
  "Tags r \<noteq> Some [] \<Longrightarrow> Metadata r \<noteq> Some Map.empty \<Longrightarrow> Clone r = r"
  by (cases "Tags r"; cases "Metadata r") (simp_all add: Clone_def)

text \<open>
  C5, amended.  Take a record each of whose strings (logical name,
  description, tags, metadata keys and values) is such that what is left of it,
  when it is trimmed and its control characters are deleted, neither begins nor
  ends with white space and, when HTML escaping is enabled, holds none of
  \<open>& < > ' "\<close>.  Then sanitizing the sanitized record returns a copy of it
  as \<open>Clone\<close> makes one, whatever the order in which the first call visits
  the metadata, the second call visiting every key: the strings, the priority,
  the flag, the elements of the tags and the entries of the metadata are the
  same, and tags or metadata that are empty and not \<open>nil\<close> become \<open>nil\<close>.
  When the sanitized record has no such tags or metadata, sanitizing it returns
  it unchanged.
\<close>

theorem Sanitize_idempotent:
  assumes name: "sanitize_stable L v (LogicalName r)"
    and desc: "sanitize_stable L v (Description r)"
    and tags: "\<forall>t \<in> set (elems (Tags r)). sanitize_stable L v t"
    and meta: "\<forall>k val. entries (Metadata r) k = Some val \<longrightarrow>
                 sanitize_stable L v k \<and> sanitize_stable L v val"
    and first: "Sanitize L v keys1 (Some r) = Some r1"
    and visit: "dom (entries (Metadata r1)) \<subseteq> set keys2"
  shows "Sanitize L v keys2 (Some r1) = Some (Clone r1) \<and>
         (Tags r1 \<noteq> Some [] \<and> Metadata r1 \<noteq> Some Map.empty \<longrightarrow>
            Sanitize L v keys2 (Some r1) = Some r1)"
proof -
  let ?san = "sanitizeString L v"
  have r1: "r1 = \<lparr>
     LogicalName = ?san (LogicalName r),
     Description = ?san (Description r),
     Tags = (if elems (Tags r) = [] then None
             else Some (filter (\<lambda>t. t \<noteq> []) (map ?san (elems (Tags r))))),
     Metadata = (if entries (Metadata r) = Map.empty then None
                 else Some (sanitize_metadata L v (entries (Metadata r)) keys1 Map.empty)),
     Priority = Priority r, Deprecated = Deprecated r, Source = Source r\<rparr>"
    using first unfolding Sanitize_eq by simp
  have a: "?san (LogicalName r1) = LogicalName r1"
    using sanitizeString_stable[OF name] by (simp add: r1)
  have b: "?san (Description r1) = Description r1"
    using sanitizeString_stable[OF desc] by (simp add: r1)
  have c: "filter (\<lambda>t. t \<noteq> []) (map ?san (elems (Tags r1))) = elems (Tags r1)"
  proof -
    have "?san t = t \<and> t \<noteq> []" if "t \<in> set (elems (Tags r1))" for t
    proof -
      from that obtain t0 where "t0 \<in> set (elems (Tags r))" "t = ?san t0" "t \<noteq> []"
        by (auto simp: r1 split: if_splits)
      then show ?thesis using sanitizeString_stable[of L v t0] tags by simp
    qed
    then have m: "map ?san (elems (Tags r1)) = elems (Tags r1)"
      and f: "filter (\<lambda>t. t \<noteq> []) (elems (Tags r1)) = elems (Tags r1)"
      by (simp_all add: map_idI)
    show ?thesis by (simp only: m f)
  qed
  have fixed: "\<forall>k val. entries (Metadata r1) k = Some val \<longrightarrow>
                 ?san k = k \<and> ?san val = val \<and> k \<noteq> [] \<and> val \<noteq> []"
  proof (intro allI impI)
    fix k val assume m: "entries (Metadata r1) k = Some val"
    then have sm: "sanitize_metadata L v (entries (Metadata r)) keys1 Map.empty k = Some val"
      by (auto simp: r1 split: if_splits)
    from sanitize_metadata_range[OF sm]
    obtain k0 v0 where "entries (Metadata r) k0 = Some v0" "k = ?san k0" "val = ?san v0"
      "k \<noteq> []" "val \<noteq> []"
      by auto
    then show "?san k = k \<and> ?san val = val \<and> k \<noteq> [] \<and> val \<noteq> []"
      using meta sanitizeString_stable[of L v k0] sanitizeString_stable[of L v v0] by simp
  qed
  have d: "sanitize_metadata L v (entries (Metadata r1)) keys2 Map.empty = entries (Metadata r1)"
  proof -
    have "entries (Metadata r1) |` set keys2 = entries (Metadata r1)"
    proof
      fix x show "(entries (Metadata r1) |` set keys2) x = entries (Metadata r1) x"
        using visit by (cases "entries (Metadata r1) x") (auto simp: restrict_map_def)
    qed
    then show ?thesis using sanitize_metadata_fixed[OF fixed, of keys2 Map.empty] by simp
  qed
  have twice: "Sanitize L v keys2 (Some r1) = Some (Clone r1)"
    unfolding Sanitize_eq by (simp add: a b c d Clone_def)
  show ?thesis using twice Clone_unchanged[of r1] by simp
qed

lemmas sanitize_eval = sanitizeString_def NewDefaultCommentValidator_def
  NewDefaultCommentValidatorWithConfig_def DefaultValidationConfig_def PermissiveValidationConfig_def
  removeControlChars_def unicode_IsPrint_def regexp_space_def html_EscapeString_def
  html_escape_rune_def eval_defs

lemma default_sanitizeString_samples:
  "sanitizeString sample_lib NewDefaultCommentValidator (str ''&'') = str ''&amp;''"
  "sanitizeString sample_lib NewDefaultCommentValidator (str ''&amp;'') = str ''&amp;amp;''"
  "sanitizeString sample_lib NewDefaultCommentValidator (str '' a  b'') = str ''a b''"
  "sanitizeString sample_lib NewDefaultCommentValidator (str ''t'') = str ''t''"
  "sanitizeString sample_lib NewDefaultCommentValidator (str ''k'') = str ''k''"
  "sanitizeString sample_lib NewDefaultCommentValidator (str ''v'') = str ''v''"
  "sanitizeString sample_lib NewDefaultCommentValidator (str '' '') = []"
  by (simp_all add: sanitize_eval)

lemma permissive_sanitizeString_samples:
  "sanitizeString sample_lib (NewDefaultCommentValidatorWithConfig PermissiveValidationConfig)
     [0x02, 0x20, 0x61] = [0x20, 0x61]"
  "sanitizeString sample_lib (NewDefaultCommentValidatorWithConfig PermissiveValidationConfig)
     [0x20, 0x61] = [0x61]"
  by (simp_all add: sanitize_eval)

text \<open>
  C5, as stated, at concrete inputs.  With HTML escaping enabled the
  description \<open>&\<close> becomes \<open>&amp;\<close> and then \<open>&amp;amp;\<close>.  The
  tags that hold one tag, a space, become the empty slice, which is not
  \<open>nil\<close>, and then \<open>nil\<close>.  Last, a case that the amended statement
  leaves out: with HTML escaping disabled the logical name made of the control
  character U+0002, a space and \<open>a\<close> becomes a space and \<open>a\<close>, and then
  \<open>a\<close>, because \<open>sanitizeString\<close> trims before it deletes the control
  characters and not after.
\<close>

theorem Sanitize_idempotent_counterexample:
  "Sanitize sample_lib NewDefaultCommentValidator []
     (Some (CommentData_zero\<lparr>Description := str ''&''\<rparr>)) =
     Some (CommentData_zero\<lparr>Description := str ''&amp;''\<rparr>) \<and>
   Sanitize sample_lib NewDefaultCommentValidator []
     (Some (CommentData_zero\<lparr>Description := str ''&amp;''\<rparr>)) =
     Some (CommentData_zero\<lparr>Description := str ''&amp;amp;''\<rparr>) \<and>
   str ''&amp;amp;'' \<noteq> str ''&amp;'' \<and>
   Sanitize sample_lib NewDefaultCommentValidator []
     (Some (CommentData_zero\<lparr>Tags := Some [str '' '']\<rparr>)) =
     Some (CommentData_zero\<lparr>Tags := Some []\<rparr>) \<and>
   Sanitize sample_lib NewDefaultCommentValidator []
     (Some (CommentData_zero\<lparr>Tags := Some []\<rparr>)) =
     Some (CommentData_zero\<lparr>Tags := None\<rparr>) \<and>
   \<not> EnableHTMLEscape (vconfig (NewDefaultCommentValidatorWithConfig PermissiveValidationConfig)) \<and>
   Sanitize sample_lib (NewDefaultCommentValidatorWithConfig PermissiveValidationConfig) []
     (Some (CommentData_zero\<lparr>LogicalName := [0x02, 0x20, 0x61]\<rparr>)) =
     Some (CommentData_zero\<lparr>LogicalName := [0x20, 0x61]\<rparr>) \<and>
   Sanitize sample_lib (NewDefaultCommentValidatorWithConfig PermissiveValidationConfig) []
     (Some (CommentData_zero\<lparr>LogicalName := [0x20, 0x61]\<rparr>)) =
     Some (CommentData_zero\<lparr>LogicalName := [0x61]\<rparr>)"
proof -
  have e: "sanitizeString L v [] = []" for L v by (simp add: sanitizeString_def)
  have d: "str ''&amp;amp;'' \<noteq> str ''&amp;''" by (simp add: str_def)
  have p: "\<not> EnableHTMLEscape (vconfig (NewDefaultCommentValidatorWithConfig PermissiveValidationConfig))"
    by (simp add: NewDefaultCommentValidatorWithConfig_def PermissiveValidationConfig_def)
  show ?thesis
    unfolding Sanitize_eq
    by (simp add: CommentData_zero_def default_sanitizeString_samples
        permissive_sanitizeString_samples e d p)
qed

lemma spaced_stable:
  "sanitize_stable sample_lib NewDefaultCommentValidator (str '' a  b'')"
  "sanitize_stable sample_lib NewDefaultCommentValidator []"
  "sanitize_stable sample_lib NewDefaultCommentValidator (str ''t'')"
  "sanitize_stable sample_lib NewDefaultCommentValidator (str ''k'')"
  "sanitize_stable sample_lib NewDefaultCommentValidator (str ''v'')"
  by (simp_all add: sanitize_stable_def html_special_def removeControlChars_def unicode_IsPrint_def
      eval_defs)

theorem Sanitize_idempotent_witness:
  "Sanitize sample_lib NewDefaultCommentValidator [str ''k''] (Some spaced_record) =
     Some spaced_record_sanitized \<and>
   Tags spaced_record_sanitized \<noteq> Some [] \<and> Metadata spaced_record_sanitized \<noteq> Some Map.empty \<and>
   Sanitize sample_lib NewDefaultCommentValidator [str ''k''] (Some spaced_record_sanitized) =
     Some spaced_record_sanitized"
proof -
  have h1: "sanitize_stable sample_lib NewDefaultCommentValidator (LogicalName spaced_record)"
    and h2: "sanitize_stable sample_lib NewDefaultCommentValidator (Description spaced_record)"
    and h3: "\<forall>t \<in> set (elems (Tags spaced_record)). sanitize_stable sample_lib NewDefaultCommentValidator t"
    by (simp_all add: spaced_record_def spaced_stable)
  have h4: "\<forall>k val. entries (Metadata spaced_record) k = Some val \<longrightarrow>
      sanitize_stable sample_lib NewDefaultCommentValidator k \<and>
      sanitize_stable sample_lib NewDefaultCommentValidator val"
    by (auto simp: spaced_record_def spaced_stable split: if_splits)
  have ne: "str ''k'' \<noteq> []" "str ''v'' \<noteq> []" "str ''t'' \<noteq> []" by (simp_all add: str_def)
  have h5: "Sanitize sample_lib NewDefaultCommentValidator [str ''k''] (Some spaced_record) =
     Some spaced_record_sanitized"
    unfolding Sanitize_eq
    by (simp add: spaced_record_def spaced_record_sanitized_def default_sanitizeString_samples ne
        sanitizeString_empty)
  have h6: "dom (entries (Metadata spaced_record_sanitized)) \<subseteq> set [str ''k'']"
    by (simp add: spaced_record_sanitized_def)
  have n: "Tags spaced_record_sanitized \<noteq> Some []"
    "Metadata spaced_record_sanitized \<noteq> Some Map.empty"
    by (simp_all add: spaced_record_sanitized_def map_upd_nonempty)
  show ?thesis
    using Sanitize_idempotent[OF h1 h2 h3 h4 h5 h6] h5 n by blast
qed

end
